theory Spec2Isabelle
  imports Main "HOL-Library.List_Lexorder"
begin

section \<open>Values exchanged with the client and with the storage engine\<close>

text \<open>
  The service of \<^verbatim>\<open>src/main.py\<close> is five HTTP handlers over one SQLite table. What
  the handlers do is decided with three libraries, which are modelled with them: the
  validator of request bodies (in its default, converting mode), the \<^verbatim>\<open>sqlite3\<close>
  module with SQLite's \<^verbatim>\<open>AUTOINCREMENT\<close>, and the web framework that turns a
  handler's result or exception into a response.

  A Python \<open>str\<close> is the list of its code points; it may hold an unpaired surrogate
  (a code point from D800 to DFFF), which JSON can express and UTF-8 cannot. The
  strings the program itself writes are ASCII and are given by their characters.
  Strings are ordered as lists of code points, which is the order of their UTF-8
  encodings.
\<close>

type_synonym pystr = "nat list"

definition ascii :: "string \<Rightarrow> pystr" where
  "ascii s = map of_char s"

text \<open>
  A request or response body is a parsed JSON value. A JSON object is the item list of the
  Python dict it parses to; a key is looked up with \<open>map_of\<close>. Floating-point numbers
  are left out of the model.
\<close>

datatype json =
    JNull
  | JBool bool
  | JInt int
  | JStr pystr
  | JList "json list"
  | JDict "(string \<times> json) list"

text \<open>A value held in a column of the table, or bound to a \<open>?\<close> of a statement.\<close>

datatype sqlval = SNull | SInt int | SText pystr

text \<open>
  The exceptions a handler can leave with: the \<open>HTTPException\<close> the handlers raise
  themselves, those the \<open>sqlite3\<close> module raises when it binds a parameter, and those
  of the storage engine.
\<close>

datatype exn =
    HTTPException nat string
  | OverflowError
  | UnicodeEncodeError
  | IntegrityError
  | OperationalError

record http_response =
  status_code :: nat
  content :: json

datatype request =
    GET_recipes
  | POST_recipes json
  | GET_recipe int
  | PATCH_recipe int json
  | DELETE_recipe int

section \<open>The request model \<open>RecipeCreate\<close>\<close>

record RecipeCreate =
  title :: pystr
  making_time :: pystr
  serves :: pystr
  ingredients :: pystr
  cost :: int

text \<open>
  Two things the validator does are its own and differ between its versions: which
  strings it converts to an integer for a field declared \<open>int\<close>, and the text of the
  exception it raises for a request it rejects. Both are parameters of the model, and
  every property below holds whatever they are.
\<close>

record validator =
  str_as_int :: "pystr \<Rightarrow> int option"
  exc_text :: "request \<Rightarrow> pystr"

text \<open>
  The default mode of the validator converts where it can. A field declared \<open>str\<close>
  takes a JSON string only. A field declared \<open>int\<close> takes an integer, and converts a
  boolean and the strings the validator reads as an integer. A key that is not in the
  body is a missing field.
\<close>

definition str_field :: "string \<Rightarrow> (string \<times> json) list \<Rightarrow> pystr option" where
  "str_field name d =
     (case map_of d name of
        Some (JStr s) \<Rightarrow> Some s
      | _ \<Rightarrow> None)"

definition int_field :: "validator \<Rightarrow> string \<Rightarrow> (string \<times> json) list \<Rightarrow> int option" where
  "int_field lib name d =
     (case map_of d name of
        Some (JInt n) \<Rightarrow> Some n
      | Some (JBool b) \<Rightarrow> Some (if b then 1 else 0)
      | Some (JStr s) \<Rightarrow> str_as_int lib s
      | _ \<Rightarrow> None)"

text \<open>
  Validation of a body against \<open>RecipeCreate\<close>: the body must be an object and each of
  the five fields must pass. Keys other than the five declared ones are never read.
  \<open>None\<close> is the \<open>RequestValidationError\<close>.
\<close>

definition validate_RecipeCreate :: "validator \<Rightarrow> json \<Rightarrow> RecipeCreate option" where
  "validate_RecipeCreate lib body =
     (case body of
        JDict d \<Rightarrow>
          (case (str_field ''title'' d, str_field ''making_time'' d, str_field ''serves'' d,
                 str_field ''ingredients'' d, int_field lib ''cost'' d) of
             (Some t, Some m, Some sv, Some i, Some c) \<Rightarrow>
               Some \<lparr>title = t, making_time = m, serves = sv, ingredients = i, cost = c\<rparr>
           | _ \<Rightarrow> None)
      | _ \<Rightarrow> None)"

text \<open>The exception handler; its argument is the text \<open>str(exc)\<close>.\<close>

definition validation_exception_handler :: "pystr \<Rightarrow> http_response" where
  "validation_exception_handler detail =
     \<lparr>status_code = 400,
      content = JDict [(''message'', JStr (ascii ''Recipe creation failed!'')),
                       (''detail'', JStr detail)]\<rparr>"

section \<open>The clock\<close>

text \<open>
  A reading of \<open>datetime.datetime.now()\<close>, and its rendering by
  \<open>strftime('%Y-%m-%d %H:%M:%S')\<close>. The year is written in decimal without padding,
  so a year below 1000 has fewer than four digits; month, day, hour, minute and second
  are written with two digits.
\<close>

record datetime =
  year :: nat
  month :: nat
  day :: nat
  hour :: nat
  minute :: nat
  second :: nat

definition valid_datetime :: "datetime \<Rightarrow> bool" where
  "valid_datetime t \<longleftrightarrow>
     1 \<le> year t \<and> year t \<le> 9999 \<and> 1 \<le> month t \<and> month t \<le> 12 \<and>
     1 \<le> day t \<and> day t \<le> 31 \<and> hour t < 24 \<and> minute t < 60 \<and> second t < 60"

fun decimal :: "nat \<Rightarrow> pystr" where
  "decimal n = (if n < 10 then [48 + n] else decimal (n div 10) @ [48 + n mod 10])"

declare decimal.simps [simp del]

definition pad2 :: "nat \<Rightarrow> pystr" where
  "pad2 n = [48 + n div 10 mod 10, 48 + n mod 10]"

definition get_current_time :: "datetime \<Rightarrow> pystr" where
  "get_current_time t =
     decimal (year t) @ ascii ''-'' @ pad2 (month t) @ ascii ''-'' @ pad2 (day t) @ ascii '' '' @
     pad2 (hour t) @ ascii '':'' @ pad2 (minute t) @ ascii '':'' @ pad2 (second t)"

definition is_digit :: "nat \<Rightarrow> bool" where
  "is_digit c \<longleftrightarrow> 48 \<le> c \<and> c \<le> 57"

text \<open>The pattern \<open>YYYY-MM-DD HH:MM:SS\<close>.\<close>

fun timestamp_format :: "pystr \<Rightarrow> bool" where
  "timestamp_format [y1, y2, y3, y4, s1, m1, m2, s2, d1, d2, s3, h1, h2, s4, n1, n2, s5, c1, c2] \<longleftrightarrow>
     is_digit y1 \<and> is_digit y2 \<and> is_digit y3 \<and> is_digit y4 \<and> s1 = 45 \<and>
     is_digit m1 \<and> is_digit m2 \<and> s2 = 45 \<and> is_digit d1 \<and> is_digit d2 \<and>
     s3 = 32 \<and> is_digit h1 \<and> is_digit h2 \<and> s4 = 58 \<and>
     is_digit n1 \<and> is_digit n2 \<and> s5 = 58 \<and> is_digit c1 \<and> is_digit c2"
| "timestamp_format _ \<longleftrightarrow> False"

section \<open>The storage engine: the table \<open>recipes\<close>\<close>

text \<open>
  A row of the table. The column \<open>id\<close> is \<open>INTEGER PRIMARY KEY AUTOINCREMENT\<close>: the
  row id, always an integer. The other columns hold what was bound to them.
\<close>

record recipes_row =
  row_id :: int
  row_title :: sqlval
  row_making_time :: sqlval
  row_serves :: sqlval
  row_ingredients :: sqlval
  row_cost :: sqlval
  row_created_at :: sqlval
  row_updated_at :: sqlval

text \<open>
  The database: the rows of the table in row-id order, which is the order in which
  \<open>SELECT *\<close> scans them, and the entry of the table in \<open>sqlite_sequence\<close>, the
  largest row id the table has ever held (0 when there is no entry).
\<close>

record db =
  rows :: "recipes_row list"
  sqlite_sequence :: int

definition INT64_MAX :: int where
  "INT64_MAX = 9223372036854775807"

definition INT64_MIN :: int where
  "INT64_MIN = - 9223372036854775808"

text \<open>
  Binding a parameter to a \<open>?\<close>. For a Python integer that does not fit in 64 bits
  \<open>sqlite3\<close> raises \<open>OverflowError\<close>. A Python string is bound as TEXT in UTF-8; for
  one that holds an unpaired surrogate the encoding fails with \<open>UnicodeEncodeError\<close>.
  The limits of the storage engine on the size of a value and of a row, a thousand
  million bytes unless configured, are resource limits and are not modelled.
\<close>

definition bind_int :: "int \<Rightarrow> exn + sqlval" where
  "bind_int n = (if INT64_MIN \<le> n \<and> n \<le> INT64_MAX then Inr (SInt n) else Inl OverflowError)"

definition encodable :: "pystr \<Rightarrow> bool" where
  "encodable s \<longleftrightarrow> list_all (\<lambda>c. c < 0xD800 \<or> 0xDFFF < c) s"

definition bind_str :: "pystr \<Rightarrow> exn + sqlval" where
  "bind_str s = (if encodable s then Inr (SText s) else Inl UnicodeEncodeError)"

text \<open>
  The five fields of a recipe, bound in the order in which the \<open>INSERT\<close> and the
  \<open>UPDATE\<close> of the handlers list them; the first that fails raises.
\<close>

definition bind_recipe ::
  "RecipeCreate \<Rightarrow> exn + (sqlval \<times> sqlval \<times> sqlval \<times> sqlval \<times> sqlval)" where
  "bind_recipe recipe =
     (case bind_str (title recipe) of
        Inl e \<Rightarrow> Inl e
      | Inr t \<Rightarrow>
         (case bind_str (making_time recipe) of
            Inl e \<Rightarrow> Inl e
          | Inr m \<Rightarrow>
             (case bind_str (serves recipe) of
                Inl e \<Rightarrow> Inl e
              | Inr sv \<Rightarrow>
                 (case bind_str (ingredients recipe) of
                    Inl e \<Rightarrow> Inl e
                  | Inr i \<Rightarrow>
                     (case bind_int (cost recipe) of
                        Inl e \<Rightarrow> Inl e
                      | Inr c \<Rightarrow> Inr (t, m, sv, i, c))))))"

definition not_null :: "sqlval list \<Rightarrow> bool" where
  "not_null vs \<longleftrightarrow> SNull \<notin> set vs"

definition max_rowid :: "db \<Rightarrow> int" where
  "max_rowid s = fold max (map row_id (rows s)) 0"

text \<open>
  \<open>INSERT\<close> with an explicit id. The id must be new (primary key), the other columns
  \<open>NOT NULL\<close>; the row goes to its place in row-id order and \<open>sqlite_sequence\<close> follows
  the largest id.
\<close>

definition insert_with_id :: "recipes_row \<Rightarrow> db \<Rightarrow> exn + db" where
  "insert_with_id r s =
     (if \<not> not_null [row_title r, row_making_time r, row_serves r, row_ingredients r,
                      row_cost r, row_created_at r, row_updated_at r]
      then Inl IntegrityError
      else if row_id r \<in> set (map row_id (rows s)) then Inl IntegrityError
      else Inr \<lparr>rows = insort_key row_id r (rows s),
                sqlite_sequence = max (sqlite_sequence s) (row_id r)\<rparr>)"

text \<open>
  \<open>INSERT\<close> without an id. With \<open>AUTOINCREMENT\<close> the new id is one more than the
  largest id the table has ever held; when that largest id is the largest 64-bit integer
  the insert fails (\<open>SQLITE_FULL\<close>). The result is the new id (\<open>cursor.lastrowid\<close>)
  and the new database.
\<close>

definition insert_auto ::
  "sqlval \<Rightarrow> sqlval \<Rightarrow> sqlval \<Rightarrow> sqlval \<Rightarrow> sqlval \<Rightarrow> sqlval \<Rightarrow> sqlval \<Rightarrow> db \<Rightarrow> exn + (int \<times> db)" where
  "insert_auto t m sv i c ca ua s =
     (let largest = max (sqlite_sequence s) (max_rowid s) in
      if \<not> not_null [t, m, sv, i, c, ca, ua] then Inl IntegrityError
      else if INT64_MAX \<le> largest then Inl OperationalError
      else Inr (largest + 1,
                \<lparr>rows = rows s @
                   [\<lparr>row_id = largest + 1, row_title = t, row_making_time = m, row_serves = sv,
                     row_ingredients = i, row_cost = c, row_created_at = ca,
                     row_updated_at = ua\<rparr>],
                 sqlite_sequence = largest + 1\<rparr>))"

text \<open>\<open>SELECT * FROM recipes WHERE id = ?\<close>: the rows with that id, in table order.\<close>

definition select_where_id :: "sqlval \<Rightarrow> db \<Rightarrow> recipes_row list" where
  "select_where_id v s = filter (\<lambda>r. SInt (row_id r) = v) (rows s)"

definition fetchone :: "'a list \<Rightarrow> 'a option" where
  "fetchone xs = (case xs of [] \<Rightarrow> None | x # _ \<Rightarrow> Some x)"

text \<open>\<open>UPDATE recipes SET title=?, ..., updated_at=? WHERE id=?\<close>.\<close>

definition update_where_id ::
  "sqlval \<Rightarrow> sqlval \<Rightarrow> sqlval \<Rightarrow> sqlval \<Rightarrow> sqlval \<Rightarrow> sqlval \<Rightarrow> sqlval \<Rightarrow> db \<Rightarrow> exn + db" where
  "update_where_id t m sv i c ua v s =
     (if select_where_id v s \<noteq> [] \<and> \<not> not_null [t, m, sv, i, c, ua] then Inl IntegrityError
      else Inr (s\<lparr>rows :=
                  map (\<lambda>r. if SInt (row_id r) = v
                           then r\<lparr>row_title := t, row_making_time := m, row_serves := sv,
                                  row_ingredients := i, row_cost := c, row_updated_at := ua\<rparr>
                           else r) (rows s)\<rparr>))"

text \<open>\<open>DELETE FROM recipes WHERE id = ?\<close>.\<close>

definition delete_where_id :: "sqlval \<Rightarrow> db \<Rightarrow> db" where
  "delete_where_id v s = s\<lparr>rows := filter (\<lambda>r. SInt (row_id r) \<noteq> v) (rows s)\<rparr>"

fun executemany :: "('a \<Rightarrow> db \<Rightarrow> exn + db) \<Rightarrow> 'a list \<Rightarrow> db \<Rightarrow> exn + db" where
  "executemany stmt [] s = Inr s"
| "executemany stmt (p # ps) s =
     (case stmt p s of Inl e \<Rightarrow> Inl e | Inr s' \<Rightarrow> executemany stmt ps s')"

section \<open>Startup\<close>

definition initial_data :: "recipes_row list" where
  "initial_data =
     [\<lparr>row_id = 1,
       row_title = SText [0x30C1, 0x30AD, 0x30F3, 0x30AB, 0x30EC, 0x30FC],
       row_making_time = SText [0x0034, 0x0035, 0x5206],
       row_serves = SText [0x0034, 0x4EBA],
       row_ingredients = SText [0x7389, 0x306D, 0x304E, 0x002C, 0x8089, 0x002C, 0x30B9, 0x30D1, 0x30A4, 0x30B9],
       row_cost = SInt 1000,
       row_created_at = SText (ascii ''2016-01-10 12:10:12''),
       row_updated_at = SText (ascii ''2016-01-10 12:10:12'')\<rparr>,
      \<lparr>row_id = 2,
       row_title = SText [0x30AA, 0x30E0, 0x30E9, 0x30A4, 0x30B9],
       row_making_time = SText [0x0033, 0x0030, 0x5206],
       row_serves = SText [0x0032, 0x4EBA],
       row_ingredients = SText [0x7389, 0x306D, 0x304E, 0x002C, 0x5375, 0x002C, 0x30B9, 0x30D1, 0x30A4, 0x30B9,
          0x002C, 0x91A4, 0x6CB9],
       row_cost = SInt 700,
       row_created_at = SText (ascii ''2016-01-11 13:10:12''),
       row_updated_at = SText (ascii ''2016-01-11 13:10:12'')\<rparr>]"

text \<open>
  \<open>DROP TABLE IF EXISTS recipes\<close> followed by \<open>CREATE TABLE IF NOT EXISTS recipes\<close>:
  the rows are gone, and so is the table's entry in \<open>sqlite_sequence\<close>.
\<close>

definition recreate_table :: "db \<Rightarrow> db" where
  "recreate_table s = \<lparr>rows = [], sqlite_sequence = 0\<rparr>"

definition init_db :: "db \<Rightarrow> exn + db" where
  "init_db s = executemany insert_with_id initial_data (recreate_table s)"

section \<open>The handlers\<close>

definition description :: "string list" where
  "description = [''id'', ''title'', ''making_time'', ''serves'', ''ingredients'', ''cost'',
                  ''created_at'', ''updated_at'']"

definition row_tuple :: "recipes_row \<Rightarrow> sqlval list" where
  "row_tuple r = [SInt (row_id r), row_title r, row_making_time r, row_serves r,
                  row_ingredients r, row_cost r, row_created_at r, row_updated_at r]"

text \<open>
  The row factory: the dict of a row, column name to value. The cursor's description and
  the row always have the same length.
\<close>

definition dict_factory :: "string list \<Rightarrow> sqlval list \<Rightarrow> (string \<times> sqlval) list" where
  "dict_factory cursor_description row = zip cursor_description row"

fun json_of_sqlval :: "sqlval \<Rightarrow> json" where
  "json_of_sqlval SNull = JNull"
| "json_of_sqlval (SInt n) = JInt n"
| "json_of_sqlval (SText s) = JStr s"

definition json_of_row :: "recipes_row \<Rightarrow> json" where
  "json_of_row r =
     JDict (map (\<lambda>(k, v). (k, json_of_sqlval v)) (dict_factory description (row_tuple r)))"

text \<open>The value of \<open>cursor.fetchone()\<close> in a response: a dict, or \<open>None\<close>.\<close>

definition json_of_fetched :: "recipes_row option \<Rightarrow> json" where
  "json_of_fetched x = (case x of None \<Rightarrow> JNull | Some r \<Rightarrow> json_of_row r)"

text \<open>
  Every handler takes the database and returns its result, a response body or the
  exception it raised, with the database as committed. A write that raises is not
  committed.
\<close>

definition get_recipes :: "db \<Rightarrow> (exn + json) \<times> db" where
  "get_recipes s = (Inr (JDict [(''recipes'', JList (map json_of_row (rows s)))]), s)"

definition create_recipe :: "datetime \<Rightarrow> RecipeCreate \<Rightarrow> db \<Rightarrow> (exn + json) \<times> db" where
  "create_recipe clock recipe s =
     (let now = get_current_time clock in
      case bind_recipe recipe of
        Inl e \<Rightarrow> (Inl e, s)
      | Inr (t, m, sv, i, c) \<Rightarrow>
         (case bind_str now of
            Inl e \<Rightarrow> (Inl e, s)
          | Inr n \<Rightarrow>
             (case insert_auto t m sv i c n n s of
                Inl e \<Rightarrow> (Inl e, s)
              | Inr (new_id, s') \<Rightarrow>
                 (case bind_int new_id of
                    Inl e \<Rightarrow> (Inl e, s')
                  | Inr v \<Rightarrow>
                     (Inr (JDict [(''message'', JStr (ascii ''Recipe successfully created!'')),
                                  (''recipe'',
                                   JList [json_of_fetched (fetchone (select_where_id v s'))])]),
                      s')))))"

definition get_recipe_detail :: "int \<Rightarrow> db \<Rightarrow> (exn + json) \<times> db" where
  "get_recipe_detail recipe_id s =
     (case bind_int recipe_id of
        Inl e \<Rightarrow> (Inl e, s)
      | Inr v \<Rightarrow>
         (case fetchone (select_where_id v s) of
            None \<Rightarrow> (Inl (HTTPException 404 ''Recipe not found''), s)
          | Some recipe \<Rightarrow>
             (Inr (JDict [(''message'', JStr (ascii ''Recipe details by id'')),
                          (''recipe'', JList [json_of_row recipe])]), s)))"

definition update_recipe :: "datetime \<Rightarrow> int \<Rightarrow> RecipeCreate \<Rightarrow> db \<Rightarrow> (exn + json) \<times> db" where
  "update_recipe clock recipe_id recipe_update s =
     (case bind_int recipe_id of
        Inl e \<Rightarrow> (Inl e, s)
      | Inr v \<Rightarrow>
         (case fetchone (select_where_id v s) of
            None \<Rightarrow> (Inl (HTTPException 404 ''Recipe not found''), s)
          | Some existing \<Rightarrow>
             (let now = get_current_time clock in
              case bind_recipe recipe_update of
                Inl e \<Rightarrow> (Inl e, s)
              | Inr (t, m, sv, i, c) \<Rightarrow>
                 (case bind_str now of
                    Inl e \<Rightarrow> (Inl e, s)
                  | Inr n \<Rightarrow>
                     (case update_where_id t m sv i c n v s of
                        Inl e \<Rightarrow> (Inl e, s)
                      | Inr s' \<Rightarrow>
                         (Inr (JDict
                            [(''message'', JStr (ascii ''Recipe successfully updated!'')),
                             (''recipe'',
                              JList [json_of_fetched (fetchone (select_where_id v s'))])]),
                          s'))))))"

definition delete_recipe :: "int \<Rightarrow> db \<Rightarrow> (exn + json) \<times> db" where
  "delete_recipe recipe_id s =
     (case bind_int recipe_id of
        Inl e \<Rightarrow> (Inl e, s)
      | Inr v \<Rightarrow>
         (case fetchone (select_where_id v s) of
            None \<Rightarrow> (Inl (HTTPException 404 ''Recipe not found''), s)
          | Some _ \<Rightarrow>
             (Inr (JDict [(''message'', JStr (ascii ''Recipe successfully removed!''))]),
              delete_where_id v s)))"

section \<open>Routing\<close>

text \<open>
  What the framework makes of a handler's result: status 200 with the body returned, the
  status and detail of an \<open>HTTPException\<close>, and status 500 with the plain text
  \<open>Internal Server Error\<close> for any other exception.
\<close>

fun respond :: "exn + json \<Rightarrow> http_response" where
  "respond (Inr body) = \<lparr>status_code = 200, content = body\<rparr>"
| "respond (Inl (HTTPException code detail)) =
     \<lparr>status_code = code, content = JDict [(''detail'', JStr (ascii detail))]\<rparr>"
| "respond (Inl _) = \<lparr>status_code = 500, content = JStr (ascii ''Internal Server Error'')\<rparr>"

definition served :: "(exn + json) \<times> db \<Rightarrow> http_response \<times> db" where
  "served result = (respond (fst result), snd result)"

text \<open>
  A request with a body is validated before its handler is called; a body that fails
  goes to the validation exception handler and the handler is never called.
\<close>

fun handle :: "validator \<Rightarrow> datetime \<Rightarrow> request \<Rightarrow> db \<Rightarrow> http_response \<times> db" where
  "handle lib clock GET_recipes s = served (get_recipes s)"
| "handle lib clock (POST_recipes body) s =
     (case validate_RecipeCreate lib body of
        None \<Rightarrow> (validation_exception_handler (exc_text lib (POST_recipes body)), s)
      | Some recipe \<Rightarrow> served (create_recipe clock recipe s))"
| "handle lib clock (GET_recipe recipe_id) s = served (get_recipe_detail recipe_id s)"
| "handle lib clock (PATCH_recipe recipe_id body) s =
     (case validate_RecipeCreate lib body of
        None \<Rightarrow>
          (validation_exception_handler (exc_text lib (PATCH_recipe recipe_id body)), s)
      | Some recipe_update \<Rightarrow> served (update_recipe clock recipe_id recipe_update s))"
| "handle lib clock (DELETE_recipe recipe_id) s = served (delete_recipe recipe_id s)"

section \<open>Runs, invariants and the predicates of the properties\<close>

definition seeded :: db where
  "seeded = \<lparr>rows = initial_data, sqlite_sequence = 2\<rparr>"

text \<open>Comparison of two column values as SQLite orders them: integers before text.\<close>

fun sql_le :: "sqlval \<Rightarrow> sqlval \<Rightarrow> bool" where
  "sql_le (SInt a) (SInt b) \<longleftrightarrow> a \<le> b"
| "sql_le (SText a) (SText b) \<longleftrightarrow> a \<le> b"
| "sql_le (SInt a) (SText b) \<longleftrightarrow> True"
| "sql_le _ _ \<longleftrightarrow> False"

text \<open>
  The states the service can be in: the state after startup, and the state after any
  request in such a state, at any reading of the clock.
\<close>

inductive reachable :: "validator \<Rightarrow> db \<Rightarrow> bool" for lib :: validator where
  startup: "init_db s0 = Inr s \<Longrightarrow> reachable lib s"
| request: "reachable lib s \<Longrightarrow> reachable lib (snd (handle lib clock req s))"

text \<open>
  A run from startup: the states the service went through, the newest first, each with
  the reading of the clock at the request that led to it.
\<close>

inductive history :: "validator \<Rightarrow> (pystr \<times> db) list \<Rightarrow> bool" for lib :: validator where
  started: "init_db s0 = Inr s \<Longrightarrow> history lib [(get_current_time clock, s)]"
| handled: "history lib ((t, s) # tr) \<Longrightarrow>
     history lib ((get_current_time clock, snd (handle lib clock req s)) # (t, s) # tr)"

text \<open>
  No reading of the clock in the run is before the one that precedes it, and none is
  before the later of the seed timestamps.
\<close>

definition clock_never_back :: "(pystr \<times> db) list \<Rightarrow> bool" where
  "clock_never_back tr \<longleftrightarrow> sorted (ascii ''2016-01-11 13:10:12'' # rev (map fst tr))"

definition row_ok :: "recipes_row \<Rightarrow> bool" where
  "row_ok r \<longleftrightarrow>
     not_null [row_title r, row_making_time r, row_serves r, row_ingredients r, row_cost r,
               row_created_at r, row_updated_at r] \<and>
     1 \<le> row_id r \<and> row_id r \<le> INT64_MAX"

definition db_inv :: "db \<Rightarrow> bool" where
  "db_inv s \<longleftrightarrow>
     (\<forall>r \<in> set (rows s). row_ok r \<and> row_id r \<le> sqlite_sequence s) \<and>
     sorted_wrt (<) (map row_id (rows s)) \<and>
     0 \<le> sqlite_sequence s \<and> sqlite_sequence s \<le> INT64_MAX"

definition updated_row ::
  "pystr \<Rightarrow> pystr \<Rightarrow> pystr \<Rightarrow> pystr \<Rightarrow> int \<Rightarrow> pystr \<Rightarrow> recipes_row \<Rightarrow> recipes_row" where
  "updated_row t m sv i c now r =
     r\<lparr>row_title := SText t, row_making_time := SText m, row_serves := SText sv,
       row_ingredients := SText i, row_cost := SInt c, row_updated_at := SText now\<rparr>"

definition created_row ::
  "int \<Rightarrow> pystr \<Rightarrow> pystr \<Rightarrow> pystr \<Rightarrow> pystr \<Rightarrow> int \<Rightarrow> pystr \<Rightarrow> recipes_row" where
  "created_row n t m sv i c now =
     \<lparr>row_id = n, row_title = SText t, row_making_time = SText m, row_serves = SText sv,
      row_ingredients = SText i, row_cost = SInt c, row_created_at = SText now,
      row_updated_at = SText now\<rparr>"

text \<open>A body that carries the five fields of a recipe, as strings and an integer.\<close>

definition carries :: "(string \<times> json) list \<Rightarrow> RecipeCreate \<Rightarrow> bool" where
  "carries d recipe \<longleftrightarrow>
     map_of d ''title'' = Some (JStr (title recipe)) \<and>
     map_of d ''making_time'' = Some (JStr (making_time recipe)) \<and>
     map_of d ''serves'' = Some (JStr (serves recipe)) \<and>
     map_of d ''ingredients'' = Some (JStr (ingredients recipe)) \<and>
     map_of d ''cost'' = Some (JInt (cost recipe))"

text \<open>
  A recipe the table can take: its four strings have a UTF-8 encoding and its cost fits
  in 64 bits.
\<close>

definition storable :: "RecipeCreate \<Rightarrow> bool" where
  "storable recipe \<longleftrightarrow>
     encodable (title recipe) \<and> encodable (making_time recipe) \<and> encodable (serves recipe) \<and>
     encodable (ingredients recipe) \<and> INT64_MIN \<le> cost recipe \<and> cost recipe \<le> INT64_MAX"





text \<open>The requests answered with one recipe: create, get by id, update.\<close>

fun single_item :: "request \<Rightarrow> bool" where
  "single_item (POST_recipes _) \<longleftrightarrow> True"
| "single_item (GET_recipe _) \<longleftrightarrow> True"
| "single_item (PATCH_recipe _ _) \<longleftrightarrow> True"
| "single_item _ \<longleftrightarrow> False"

section \<open>Inputs of the examples\<close>

text \<open>
  The examples need a value for the validator. This one reads the string \<open>"5"\<close> as
  the integer 5, as the validator does; no example asks it about another string, and
  none looks at the text of its exceptions.
\<close>

definition reads_5 :: validator where
  "reads_5 = \<lparr>str_as_int = (\<lambda>s. if s = ascii ''5'' then Some 5 else None),
              exc_text = (\<lambda>req. [])\<rparr>"

text \<open>The JSON body that carries a recipe and nothing else.\<close>

definition body_of :: "RecipeCreate \<Rightarrow> json" where
  "body_of recipe =
     JDict [(''title'', JStr (title recipe)), (''making_time'', JStr (making_time recipe)),
            (''serves'', JStr (serves recipe)), (''ingredients'', JStr (ingredients recipe)),
            (''cost'', JInt (cost recipe))]"

definition sample_recipe :: RecipeCreate where
  "sample_recipe =
     \<lparr>title = ascii ''T'', making_time = ascii ''10 min'', serves = ascii ''2'',
      ingredients = ascii ''a,b'', cost = 5\<rparr>"

text \<open>
  The same recipe with a cost one more than the largest 64-bit integer, and with a title
  that is one unpaired surrogate.
\<close>

definition costly_recipe :: RecipeCreate where
  "costly_recipe = sample_recipe\<lparr>cost := 9223372036854775808\<rparr>"

definition surrogate_recipe :: RecipeCreate where
  "surrogate_recipe = sample_recipe\<lparr>title := [0xD800]\<rparr>"

text \<open>Bodies whose cost is the string \<open>"5"\<close> and the boolean \<open>true\<close>.\<close>

definition string_cost_body :: json where
  "string_cost_body =
     JDict [(''title'', JStr (ascii ''T'')), (''making_time'', JStr (ascii ''10 min'')),
            (''serves'', JStr (ascii ''2'')), (''ingredients'', JStr (ascii ''a,b'')),
            (''cost'', JStr (ascii ''5''))]"

definition bool_cost_body :: json where
  "bool_cost_body =
     JDict [(''title'', JStr (ascii ''T'')), (''making_time'', JStr (ascii ''10 min'')),
            (''serves'', JStr (ascii ''2'')), (''ingredients'', JStr (ascii ''a,b'')),
            (''cost'', JBool True)]"

text \<open>A body with three keys beyond the five, and one without \<open>ingredients\<close> or a cost.\<close>

definition extra_items :: "(string \<times> json) list" where
  "extra_items =
     [(''id'', JInt 99), (''created_at'', JStr (ascii ''1999-12-31 23:59:59'')),
      (''updated_at'', JStr (ascii ''1999-12-31 23:59:59'')), (''title'', JStr (ascii ''T'')),
      (''making_time'', JStr (ascii ''10 min'')), (''serves'', JStr (ascii ''2'')),
      (''ingredients'', JStr (ascii ''a,b'')), (''cost'', JInt 5)]"

definition incomplete_body :: json where
  "incomplete_body =
     JDict [(''title'', JStr (ascii ''T'')), (''making_time'', JStr (ascii ''10 min'')),
            (''serves'', JStr (ascii ''2'')), (''cost'', JNull)]"

text \<open>Three readings of the clock, and a database whose table has held the largest id.\<close>

definition clock_early :: datetime where
  "clock_early = \<lparr>year = 2024, month = 11, day = 3, hour = 1, minute = 0, second = 0\<rparr>"

definition clock_late :: datetime where
  "clock_late = \<lparr>year = 2024, month = 11, day = 3, hour = 1, minute = 30, second = 0\<rparr>"

definition clock_999 :: datetime where
  "clock_999 = \<lparr>year = 999, month = 1, day = 2, hour = 3, minute = 4, second = 5\<rparr>"

definition exhausted :: db where
  "exhausted = \<lparr>rows = [], sqlite_sequence = 9223372036854775807\<rparr>"

text \<open>
  Three short runs from startup, newest state first: a recipe created and then updated
  half an hour later; the same with the clock set back in between; a seed row deleted.
\<close>

definition run_forward :: "(pystr \<times> db) list" where
  "run_forward =
     [(get_current_time clock_late,
       snd (handle reads_5 clock_late (PATCH_recipe 3 (body_of sample_recipe))
         (snd (handle reads_5 clock_early (POST_recipes (body_of sample_recipe)) seeded)))),
      (get_current_time clock_early,
       snd (handle reads_5 clock_early (POST_recipes (body_of sample_recipe)) seeded)),
      (get_current_time clock_early, seeded)]"

definition run_set_back :: "(pystr \<times> db) list" where
  "run_set_back =
     [(get_current_time clock_early,
       snd (handle reads_5 clock_early (PATCH_recipe 3 (body_of sample_recipe))
         (snd (handle reads_5 clock_late (POST_recipes (body_of sample_recipe)) seeded)))),
      (get_current_time clock_late,
       snd (handle reads_5 clock_late (POST_recipes (body_of sample_recipe)) seeded)),
      (get_current_time clock_late, seeded)]"

definition run_deleted :: "(pystr \<times> db) list" where
  "run_deleted =
     [(get_current_time clock_late, snd (handle reads_5 clock_late (DELETE_recipe 2) seeded)),
      (get_current_time clock_early, seeded)]"

section \<open>Startup and listing\<close>

text \<open>
  Claim C1. Whatever the database held before, startup initialisation succeeds and
  listing all recipes then returns exactly the two seed rows, ids 1 and 2, with their
  fixed field values and timestamps, in that order.
\<close>

theorem init_db_seed:
  "\<exists>s'. init_db s = Inr s' \<and>
     handle lib clock GET_recipes s' =
       (\<lparr>status_code = 200,
         content = JDict [(''recipes'', JList
           [JDict [(''id'', JInt 1),
                   (''title'', JStr [0x30C1, 0x30AD, 0x30F3, 0x30AB, 0x30EC, 0x30FC]),
                   (''making_time'', JStr [0x0034, 0x0035, 0x5206]),
                   (''serves'', JStr [0x0034, 0x4EBA]),
                   (''ingredients'', JStr [0x7389, 0x306D, 0x304E, 0x002C, 0x8089, 0x002C, 0x30B9, 0x30D1, 0x30A4,
                      0x30B9]),
                   (''cost'', JInt 1000),
                   (''created_at'', JStr (ascii ''2016-01-10 12:10:12'')),
                   (''updated_at'', JStr (ascii ''2016-01-10 12:10:12''))],
            JDict [(''id'', JInt 2),
                   (''title'', JStr [0x30AA, 0x30E0, 0x30E9, 0x30A4, 0x30B9]),
                   (''making_time'', JStr [0x0033, 0x0030, 0x5206]),
                   (''serves'', JStr [0x0032, 0x4EBA]),
                   (''ingredients'', JStr [0x7389, 0x306D, 0x304E, 0x002C, 0x5375, 0x002C, 0x30B9, 0x30D1, 0x30A4,
                      0x30B9, 0x002C, 0x91A4, 0x6CB9]),
                   (''cost'', JInt 700),
                   (''created_at'', JStr (ascii ''2016-01-11 13:10:12'')),
                   (''updated_at'', JStr (ascii ''2016-01-11 13:10:12''))]])]\<rparr>,
        s')"
  by (simp add: init_db_def recreate_table_def initial_data_def insert_with_id_def not_null_def
      get_recipes_def served_def json_of_row_def dict_factory_def description_def row_tuple_def)

section \<open>Invariants of the storage and properties of the handlers\<close>

lemma init_db_seeded: "init_db s = Inr seeded"
  by (simp add: init_db_def recreate_table_def initial_data_def insert_with_id_def not_null_def
      seeded_def)

lemma db_inv_seeded: "db_inv seeded"
  by (simp add: db_inv_def seeded_def initial_data_def row_ok_def not_null_def INT64_MAX_def)

lemma fold_max_ge: "(a::int) \<le> fold max xs a"
  by (induction xs arbitrary: a) (auto intro: order_trans [OF max.cobounded2])

lemma fold_max_bound: "\<forall>x \<in> set xs. x \<le> (b::int) \<Longrightarrow> a \<le> b \<Longrightarrow> fold max xs a \<le> b"
  by (induction xs arbitrary: a) auto

lemma max_rowid_le: "db_inv s \<Longrightarrow> max_rowid s \<le> sqlite_sequence s"
  unfolding max_rowid_def by (rule fold_max_bound) (auto simp: db_inv_def)

lemma largest_eq: "db_inv s \<Longrightarrow> max (sqlite_sequence s) (max_rowid s) = sqlite_sequence s"
  using max_rowid_le [of s] by simp

lemma max_rowid_nonneg: "0 \<le> max_rowid s"
  unfolding max_rowid_def by (rule fold_max_ge)

lemma bind_int_next:
  "max (sqlite_sequence s) (max_rowid s) < INT64_MAX \<Longrightarrow>
   bind_int (max (sqlite_sequence s) (max_rowid s) + 1) =
     Inr (SInt (max (sqlite_sequence s) (max_rowid s) + 1))"
  using max_rowid_nonneg [of s] by (auto simp: bind_int_def INT64_MIN_def max_def)

lemma decimal_digits: "\<forall>c \<in> set (decimal n). 48 \<le> c \<and> c \<le> 57"
proof (induction n rule: decimal.induct)
  case (1 n)
  show ?case
  proof (cases "n < 10")
    case True
    then show ?thesis by (simp add: decimal.simps [of n])
  next
    case False
    then show ?thesis using 1 by (simp add: decimal.simps [of n])
  qed
qed

lemma encodable_append: "encodable (xs @ ys) \<longleftrightarrow> encodable xs \<and> encodable ys"
  by (simp add: encodable_def)

lemma encodable_now: "encodable (get_current_time clock)"
proof -
  have d: "encodable (decimal n)" for n
    using decimal_digits [of n] by (fastforce simp: encodable_def list_all_iff)
  have p: "encodable (pad2 n)" for n
  proof -
    have "n div 10 mod 10 < 10" "n mod 10 < 10" by simp_all
    then show ?thesis unfolding pad2_def encodable_def by (simp del: mod_less_divisor)
  qed
  show ?thesis
    by (simp add: get_current_time_def encodable_append d p) (simp add: encodable_def ascii_def)
qed

lemma bind_now: "bind_str (get_current_time clock) = Inr (SText (get_current_time clock))"
  by (simp add: bind_str_def encodable_now)

lemma bind_recipe_ok:
  "storable recipe \<Longrightarrow>
   bind_recipe recipe =
     Inr (SText (title recipe), SText (making_time recipe), SText (serves recipe),
          SText (ingredients recipe), SInt (cost recipe))"
  by (simp add: storable_def bind_recipe_def bind_str_def bind_int_def)

lemma bind_recipe_fails:
  "\<not> storable recipe \<Longrightarrow>
   bind_recipe recipe = Inl OverflowError \<or> bind_recipe recipe = Inl UnicodeEncodeError"
  by (auto simp: storable_def bind_recipe_def bind_str_def bind_int_def)

lemma create_recipe_snd:
  assumes "storable recipe" "max (sqlite_sequence s) (max_rowid s) < INT64_MAX"
  shows "snd (create_recipe clock recipe s) =
         \<lparr>rows = rows s @ [created_row (max (sqlite_sequence s) (max_rowid s) + 1)
                              (title recipe) (making_time recipe) (serves recipe)
                              (ingredients recipe) (cost recipe) (get_current_time clock)],
          sqlite_sequence = max (sqlite_sequence s) (max_rowid s) + 1\<rparr>"
  using assms(2) bind_int_next [OF assms(2)]
  by (auto simp add: create_recipe_def bind_recipe_ok [OF assms(1)] bind_now insert_auto_def
      not_null_def Let_def created_row_def)

lemma create_recipe_fails:
  assumes "\<not> (storable recipe \<and> max (sqlite_sequence s) (max_rowid s) < INT64_MAX)"
  shows "create_recipe clock recipe s = (Inl OverflowError, s) \<or>
         create_recipe clock recipe s = (Inl UnicodeEncodeError, s) \<or>
         create_recipe clock recipe s = (Inl OperationalError, s)"
proof (cases "storable recipe")
  case True
  then have "\<not> max (sqlite_sequence s) (max_rowid s) < INT64_MAX" using assms by simp
  then show ?thesis
    by (auto simp: create_recipe_def bind_recipe_ok [OF True] bind_now insert_auto_def
        not_null_def Let_def)
next
  case False
  from bind_recipe_fails [OF this] show ?thesis
    by (auto simp: create_recipe_def Let_def)
qed

lemma handle_cases:
  obtains (same) "snd (handle lib clock req s) = s"
  | (deleted) v where "snd (handle lib clock req s) = s\<lparr>rows := filter (\<lambda>r. row_id r \<noteq> v) (rows s)\<rparr>"
  | (updated) t m sv i c v where
      "snd (handle lib clock req s) =
         s\<lparr>rows := map (\<lambda>r. if row_id r = v then updated_row t m sv i c (get_current_time clock) r
                            else r) (rows s)\<rparr>"
  | (created) t m sv i c where
      "max (sqlite_sequence s) (max_rowid s) < INT64_MAX"
      "snd (handle lib clock req s) =
         \<lparr>rows = rows s @ [created_row (max (sqlite_sequence s) (max_rowid s) + 1) t m sv i c
                              (get_current_time clock)],
          sqlite_sequence = max (sqlite_sequence s) (max_rowid s) + 1\<rparr>"
proof (cases req)
  case GET_recipes
  then show ?thesis using same by (simp add: served_def get_recipes_def)
next
  case (POST_recipes body)
  show ?thesis
  proof (cases "validate_RecipeCreate lib body")
    case None
    then show ?thesis using same POST_recipes by simp
  next
    case (Some recipe)
    show ?thesis
    proof (cases "storable recipe \<and> max (sqlite_sequence s) (max_rowid s) < INT64_MAX")
      case True
      then have "snd (handle lib clock req s) =
         \<lparr>rows = rows s @ [created_row (max (sqlite_sequence s) (max_rowid s) + 1)
                              (title recipe) (making_time recipe) (serves recipe)
                              (ingredients recipe) (cost recipe) (get_current_time clock)],
          sqlite_sequence = max (sqlite_sequence s) (max_rowid s) + 1\<rparr>"
        using POST_recipes Some by (simp add: served_def create_recipe_snd)
      note eq = this
      show ?thesis
        by (rule created [OF _ eq]) (use True in simp_all)
    next
      case False
      from create_recipe_fails [OF this, of clock] show ?thesis
        using POST_recipes Some same by (auto simp add: served_def)
    qed
  qed
next
  case (GET_recipe recipe_id)
  then show ?thesis using same
    by (simp add: served_def get_recipe_detail_def split: sum.splits option.splits)
next
  case (PATCH_recipe recipe_id body)
  show ?thesis
  proof (cases "validate_RecipeCreate lib body")
    case None
    then show ?thesis using same PATCH_recipe by simp
  next
    case (Some recipe)
    show ?thesis
    proof (cases "snd (handle lib clock req s) = s")
      case True
      then show ?thesis by (rule same)
    next
      case False
      have st: "storable recipe"
      proof (rule ccontr)
        assume "\<not> storable recipe"
        from bind_recipe_fails [OF this] have "snd (handle lib clock req s) = s"
          using PATCH_recipe Some
          by (auto simp add: served_def update_recipe_def Let_def
              split: sum.splits option.splits)
        then show False using False by simp
      qed
      from False have "snd (handle lib clock req s) =
         s\<lparr>rows := map (\<lambda>r. if row_id r = recipe_id
                             then updated_row (title recipe) (making_time recipe) (serves recipe)
                               (ingredients recipe) (cost recipe) (get_current_time clock) r
                             else r) (rows s)\<rparr>"
        using PATCH_recipe Some
        by (auto simp add: served_def update_recipe_def bind_recipe_ok [OF st] bind_now
            bind_int_def update_where_id_def not_null_def Let_def updated_row_def
            split: sum.splits option.splits if_splits)
      then show ?thesis by (rule updated)
    qed
  qed
next
  case (DELETE_recipe recipe_id)
  show ?thesis
  proof (cases "snd (handle lib clock req s) = s")
    case True
    then show ?thesis by (rule same)
  next
    case False
    then have "snd (handle lib clock req s) =
        s\<lparr>rows := filter (\<lambda>r. row_id r \<noteq> recipe_id) (rows s)\<rparr>"
      using DELETE_recipe
      by (auto simp add: served_def delete_recipe_def bind_int_def delete_where_id_def
          split: sum.splits option.splits if_splits)
    then show ?thesis by (rule deleted)
  qed
qed

lemma db_inv_step: "db_inv s \<Longrightarrow> db_inv (snd (handle lib clock req s))"
proof (cases lib clock req s rule: handle_cases)
  case same
  assume "db_inv s"
  then show ?thesis using same by simp
next
  case (deleted v)
  assume "db_inv s"
  then show ?thesis using deleted
    by (auto simp: db_inv_def sorted_wrt_filter sorted_wrt_map)
next
  case (updated t m sv i c v)
  assume "db_inv s"
  moreover have "row_id \<circ> (\<lambda>r. if row_id r = v
      then updated_row t m sv i c (get_current_time clock) r else r) = row_id"
    by (auto simp: fun_eq_iff updated_row_def)
  ultimately show ?thesis using updated
    by (auto simp: db_inv_def row_ok_def not_null_def updated_row_def)
next
  case (created t m sv i c)
  assume inv: "db_inv s"
  have l: "max (sqlite_sequence s) (max_rowid s) = sqlite_sequence s"
    using inv by (rule largest_eq)
  have lt: "sqlite_sequence s < INT64_MAX" using created(1) l by simp
  show ?thesis
    using inv lt unfolding created(2) l
    by (auto simp: db_inv_def row_ok_def not_null_def created_row_def sorted_wrt_append)
qed

lemma seq_mono_step:
  "db_inv s \<Longrightarrow> sqlite_sequence s \<le> sqlite_sequence (snd (handle lib clock req s))"
proof (cases lib clock req s rule: handle_cases)
  case (created t m sv i c)
  assume "db_inv s"
  then show ?thesis using created(2) largest_eq [of s] by simp
qed simp_all

lemma rows_step:
  assumes "db_inv s" "r' \<in> set (rows (snd (handle lib clock req s)))"
  shows "(\<exists>r \<in> set (rows s). row_id r = row_id r' \<and> row_created_at r = row_created_at r' \<and>
            (row_updated_at r' = row_updated_at r \<or>
             row_updated_at r' = SText (get_current_time clock))) \<or>
         (sqlite_sequence s < row_id r' \<and> row_created_at r' = SText (get_current_time clock) \<and>
          row_updated_at r' = SText (get_current_time clock))"
proof (cases lib clock req s rule: handle_cases)
  case same
  then show ?thesis using assms(2) by auto
next
  case (deleted v)
  then show ?thesis using assms(2) by auto
next
  case (updated t m sv i c v)
  then show ?thesis using assms(2) by (auto simp: updated_row_def)
next
  case (created t m sv i c)
  then show ?thesis using assms largest_eq [of s] by (auto simp: created_row_def)
qed

lemma reachable_db_inv: "reachable lib s \<Longrightarrow> db_inv s"
proof (induction rule: reachable.induct)
  case (startup s0 s)
  then show ?case using db_inv_seeded by (simp add: init_db_seeded)
next
  case (request s clock req)
  from request.IH show ?case by (rule db_inv_step)
qed

lemma history_db_inv: "history lib tr \<Longrightarrow> \<forall>x \<in> set tr. db_inv (snd x)"
proof (induction rule: history.induct)
  case (started s0 s clock)
  then show ?case using db_inv_seeded by (simp add: init_db_seeded)
next
  case (handled t s tr clock req)
  then show ?case by (simp add: db_inv_step)
qed

lemma history_ids_le_seq:
  "history lib tr \<Longrightarrow>
   \<forall>x \<in> set tr. \<forall>r \<in> set (rows (snd x)). row_id r \<le> sqlite_sequence (snd (hd tr))"
proof (induction rule: history.induct)
  case (started s0 s clock)
  then show ?case using db_inv_seeded by (auto simp: init_db_seeded db_inv_def)
next
  case (handled t s tr clock req)
  have inv: "db_inv s" using history_db_inv [OF handled.hyps] by simp
  have inv': "db_inv (snd (handle lib clock req s))" using inv by (rule db_inv_step)
  have mono: "sqlite_sequence s \<le> sqlite_sequence (snd (handle lib clock req s))"
    using inv by (rule seq_mono_step)
  show ?case using handled.IH mono inv' by (fastforce simp: db_inv_def)
qed

lemma db_inv_same_id:
  assumes "db_inv s" "r \<in> set (rows s)" "r' \<in> set (rows s)" "row_id r = row_id r'"
  shows "r = r'"
proof -
  have "distinct (map row_id (rows s))"
    using assms(1) by (simp add: db_inv_def strict_sorted_iff)
  then have "inj_on row_id (set (rows s))" by (simp add: distinct_map)
  then show ?thesis using assms(2-4) by (auto dest: inj_onD)
qed

lemma history_created_at:
  "history lib tr \<Longrightarrow>
   \<forall>x \<in> set tr. \<forall>y \<in> set tr. \<forall>r \<in> set (rows (snd x)). \<forall>r' \<in> set (rows (snd y)).
     row_id r = row_id r' \<longrightarrow> row_created_at r = row_created_at r'"
proof (induction rule: history.induct)
  case (started s0 s clock)
  then show ?case using db_inv_same_id [OF db_inv_seeded] by (auto simp: init_db_seeded)
next
  case (handled t s tr clock req)
  let ?s' = "snd (handle lib clock req s)"
  let ?old = "(t, s) # tr"
  have inv: "db_inv s" using history_db_inv [OF handled.hyps] by simp
  have inv': "db_inv ?s'" using inv by (rule db_inv_step)
  have le: "\<forall>x \<in> set ?old. \<forall>r \<in> set (rows (snd x)). row_id r \<le> sqlite_sequence s"
    using history_ids_le_seq [OF handled.hyps] by simp
  have new_old: "row_created_at r' = row_created_at r"
    if "r' \<in> set (rows ?s')" "y \<in> set ?old" "r \<in> set (rows (snd y))" "row_id r' = row_id r"
    for r' y r
  proof -
    from rows_step [OF inv that(1)] le that(2-4)
    obtain r0 where "r0 \<in> set (rows s)" "row_id r0 = row_id r'"
      "row_created_at r0 = row_created_at r'"
      by fastforce
    moreover have "(t, s) \<in> set ?old" by simp
    ultimately show ?thesis using handled.IH that(2-4) by (metis snd_conv)
  qed
  have new_new: "row_created_at r = row_created_at r'"
    if "r \<in> set (rows ?s')" "r' \<in> set (rows ?s')" "row_id r = row_id r'" for r r'
    using db_inv_same_id [OF inv' that] by simp
  show ?case
  proof (intro ballI impI)
    fix x y r r'
    assume x: "x \<in> set ((get_current_time clock, ?s') # ?old)"
      and y: "y \<in> set ((get_current_time clock, ?s') # ?old)"
      and r: "r \<in> set (rows (snd x))" and r': "r' \<in> set (rows (snd y))"
      and eq: "row_id r = row_id r'"
    consider "x \<in> set ?old" "y \<in> set ?old" | "x \<in> set ?old" "snd y = ?s'"
      | "snd x = ?s'" "y \<in> set ?old" | "snd x = ?s'" "snd y = ?s'"
      using x y by auto
    then show "row_created_at r = row_created_at r'"
    proof cases
      case 1
      then show ?thesis using handled.IH r r' eq by blast
    next
      case 2
      then show ?thesis using new_old [of r' x r] r r' eq by simp
    next
      case 3
      then show ?thesis using new_old [of r y r'] r r' eq by simp
    next
      case 4
      then show ?thesis using new_new [of r r'] r r' eq by simp
    qed
  qed
qed

lemma clock_never_back_Cons:
  "clock_never_back ((t', s') # (t, s) # tr) \<longleftrightarrow> clock_never_back ((t, s) # tr) \<and> t \<le> t'"
  by (auto simp: clock_never_back_def sorted_append)

lemma seed_timestamps: "ascii ''2016-01-10 12:10:12'' \<le> ascii ''2016-01-11 13:10:12''"
  by (simp add: ascii_def)

lemma history_clock:
  "history lib tr \<Longrightarrow> clock_never_back tr \<Longrightarrow>
   \<forall>x \<in> set tr. \<forall>r \<in> set (rows (snd x)).
     \<exists>a b. row_created_at r = SText a \<and> row_updated_at r = SText b \<and> a \<le> b \<and> b \<le> fst (hd tr)"
proof (induction rule: history.induct)
  case (started s0 s clock)
  have l: "ascii ''2016-01-11 13:10:12'' \<le> get_current_time clock"
    using started.prems by (simp add: clock_never_back_def)
  with seed_timestamps have "ascii ''2016-01-10 12:10:12'' \<le> get_current_time clock"
    by (rule order_trans)
  moreover have "s = seeded" using started.hyps by (simp add: init_db_seeded)
  ultimately show ?case
    using l by (simp add: seeded_def initial_data_def)
next
  case (handled t s tr clock req)
  let ?now = "get_current_time clock"
  let ?s' = "snd (handle lib clock req s)"
  have mono: "clock_never_back ((t, s) # tr)" and le: "t \<le> ?now"
    using handled.prems by (simp_all add: clock_never_back_Cons)
  have inv: "db_inv s" using history_db_inv [OF handled.hyps] by simp
  have IH: "\<forall>x \<in> set ((t, s) # tr). \<forall>r \<in> set (rows (snd x)).
     \<exists>a b. row_created_at r = SText a \<and> row_updated_at r = SText b \<and> a \<le> b \<and> b \<le> t"
    using handled.IH [OF mono] by simp
  have old: "\<exists>a b. row_created_at r = SText a \<and> row_updated_at r = SText b \<and> a \<le> b \<and> b \<le> ?now"
    if "x \<in> set ((t, s) # tr)" "r \<in> set (rows (snd x))" for x r
    using IH that le by (meson order_trans)
  have new: "\<exists>a b. row_created_at r' = SText a \<and> row_updated_at r' = SText b \<and> a \<le> b \<and> b \<le> ?now"
    if "r' \<in> set (rows ?s')" for r'
    using rows_step [OF inv that]
  proof (elim disjE bexE conjE)
    fix r
    assume r: "r \<in> set (rows s)" and c: "row_created_at r = row_created_at r'"
      and u: "row_updated_at r' = row_updated_at r"
    from old [of "(t, s)" r] r show ?thesis using c u by auto
  next
    fix r
    assume r: "r \<in> set (rows s)" and c: "row_created_at r = row_created_at r'"
      and u: "row_updated_at r' = SText ?now"
    from old [of "(t, s)" r] r obtain a b where
      "row_created_at r = SText a" "a \<le> b" "b \<le> ?now" by auto
    then show ?thesis using c u by (auto intro: order_trans)
  next
    assume "row_created_at r' = SText ?now" "row_updated_at r' = SText ?now"
    then show ?thesis by simp
  qed
  show ?case using old new by auto
qed

lemmas run_defs =
  served_def validate_RecipeCreate_def str_field_def int_field_def reads_5_def
  create_recipe_def update_recipe_def delete_recipe_def get_recipe_detail_def get_recipes_def
  bind_int_def bind_str_def bind_recipe_def encodable_def INT64_MAX_def INT64_MIN_def
  insert_auto_def update_where_id_def delete_where_id_def select_where_id_def fetchone_def
  not_null_def max_rowid_def json_of_fetched_def json_of_row_def dict_factory_def
  description_def row_tuple_def get_current_time_def pad2_def decimal.simps ascii_def
  seeded_def initial_data_def body_of_def sample_recipe_def costly_recipe_def
  surrogate_recipe_def string_cost_body_def bool_cost_body_def extra_items_def
  incomplete_body_def clock_early_def clock_late_def clock_999_def exhausted_def
  validation_exception_handler_def Let_def

lemma history_seeded: "history lib [(get_current_time clock, seeded)]"
  by (rule history.started [OF init_db_seeded])

lemma clock_strings:
  "get_current_time clock_early = ascii ''2024-11-03 01:00:00''"
  "get_current_time clock_late = ascii ''2024-11-03 01:30:00''"
  "get_current_time clock_999 = ascii ''999-01-02 03:04:05''"
  by (simp_all add: run_defs)

lemma posted_late:
  "snd (handle reads_5 clock_late (POST_recipes (body_of sample_recipe)) seeded) =
     \<lparr>rows = initial_data @
        [created_row 3 (ascii ''T'') (ascii ''10 min'') (ascii ''2'') (ascii ''a,b'') 5
           (ascii ''2024-11-03 01:30:00'')],
      sqlite_sequence = 3\<rparr>"
  by (simp add: run_defs created_row_def)

lemma posted_early:
  "snd (handle reads_5 clock_early (POST_recipes (body_of sample_recipe)) seeded) =
     \<lparr>rows = initial_data @
        [created_row 3 (ascii ''T'') (ascii ''10 min'') (ascii ''2'') (ascii ''a,b'') 5
           (ascii ''2024-11-03 01:00:00'')],
      sqlite_sequence = 3\<rparr>"
  by (simp add: run_defs created_row_def)

lemma patched_early:
  "snd (handle reads_5 clock_early (PATCH_recipe 3 (body_of sample_recipe))
     \<lparr>rows = initial_data @
        [created_row 3 (ascii ''T'') (ascii ''10 min'') (ascii ''2'') (ascii ''a,b'') 5
           (ascii ''2024-11-03 01:30:00'')],
      sqlite_sequence = 3\<rparr>) =
     \<lparr>rows = initial_data @
        [(created_row 3 (ascii ''T'') (ascii ''10 min'') (ascii ''2'') (ascii ''a,b'') 5
            (ascii ''2024-11-03 01:30:00''))
           \<lparr>row_updated_at := SText (ascii ''2024-11-03 01:00:00'')\<rparr>],
      sqlite_sequence = 3\<rparr>"
  by (simp add: run_defs created_row_def)

lemma patched_late:
  "snd (handle reads_5 clock_late (PATCH_recipe 3 (body_of sample_recipe))
     \<lparr>rows = initial_data @
        [created_row 3 (ascii ''T'') (ascii ''10 min'') (ascii ''2'') (ascii ''a,b'') 5
           (ascii ''2024-11-03 01:00:00'')],
      sqlite_sequence = 3\<rparr>) =
     \<lparr>rows = initial_data @
        [(created_row 3 (ascii ''T'') (ascii ''10 min'') (ascii ''2'') (ascii ''a,b'') 5
            (ascii ''2024-11-03 01:00:00''))
           \<lparr>row_updated_at := SText (ascii ''2024-11-03 01:30:00'')\<rparr>],
      sqlite_sequence = 3\<rparr>"
  by (simp add: run_defs created_row_def)

lemma deleted_two:
  "snd (handle reads_5 clock_late (DELETE_recipe 2) seeded) =
     \<lparr>rows = [hd initial_data], sqlite_sequence = 2\<rparr>"
  by (simp add: run_defs)

text \<open>
  Claim C8, as amended. Along every run from startup, every stored row has an id that no
  other row of the same state has, and no column of it is null; two rows with the same id,
  in the same state or in two states of the run, have the same \<open>created_at\<close>; and when
  no clock reading of the run is earlier than the one before it, nor earlier than the
  seed timestamps, \<open>updated_at\<close> is at or after \<open>created_at\<close> in every row.
\<close>

theorem stored_rows_invariants:
  assumes "history lib tr"
  shows "(\<forall>x \<in> set tr. distinct (map row_id (rows (snd x)))) \<and>
         (\<forall>x \<in> set tr. \<forall>r \<in> set (rows (snd x)).
            not_null [row_title r, row_making_time r, row_serves r, row_ingredients r,
                      row_cost r, row_created_at r, row_updated_at r]) \<and>
         (\<forall>x \<in> set tr. \<forall>y \<in> set tr. \<forall>r \<in> set (rows (snd x)). \<forall>r' \<in> set (rows (snd y)).
            row_id r = row_id r' \<longrightarrow> row_created_at r = row_created_at r') \<and>
         (clock_never_back tr \<longrightarrow>
            (\<forall>x \<in> set tr. \<forall>r \<in> set (rows (snd x)).
               sql_le (row_created_at r) (row_updated_at r)))"
proof (intro conjI impI)
  show "\<forall>x \<in> set tr. distinct (map row_id (rows (snd x)))"
    using history_db_inv [OF assms] by (simp add: db_inv_def strict_sorted_iff)
  show "\<forall>x \<in> set tr. \<forall>r \<in> set (rows (snd x)).
          not_null [row_title r, row_making_time r, row_serves r, row_ingredients r,
                    row_cost r, row_created_at r, row_updated_at r]"
    using history_db_inv [OF assms] by (simp add: db_inv_def row_ok_def)
  show "\<forall>x \<in> set tr. \<forall>y \<in> set tr. \<forall>r \<in> set (rows (snd x)). \<forall>r' \<in> set (rows (snd y)).
          row_id r = row_id r' \<longrightarrow> row_created_at r = row_created_at r'"
    using assms by (rule history_created_at)
next
  assume "clock_never_back tr"
  from history_clock [OF assms this]
  show "\<forall>x \<in> set tr. \<forall>r \<in> set (rows (snd x)). sql_le (row_created_at r) (row_updated_at r)"
    by fastforce
qed

theorem stored_rows_invariants_witness:
  "history reads_5 run_forward \<and> clock_never_back run_forward \<and>
   distinct (map row_id (rows (snd (hd run_forward)))) \<and>
   row_created_at (rows (snd (hd run_forward)) ! 2) = SText (ascii ''2024-11-03 01:00:00'') \<and>
   row_updated_at (rows (snd (hd run_forward)) ! 2) = SText (ascii ''2024-11-03 01:30:00'') \<and>
   sql_le (row_created_at (rows (snd (hd run_forward)) ! 2))
          (row_updated_at (rows (snd (hd run_forward)) ! 2))"
proof -
  have h: "history reads_5 run_forward"
    unfolding run_forward_def by (intro history.handled history_seeded)
  have c: "clock_never_back run_forward"
    by (simp add: run_forward_def clock_strings clock_never_back_def) (simp add: ascii_def)
  have e: "snd (hd run_forward) = \<lparr>rows = initial_data @
        [(created_row 3 (ascii ''T'') (ascii ''10 min'') (ascii ''2'') (ascii ''a,b'') 5
            (ascii ''2024-11-03 01:00:00''))
           \<lparr>row_updated_at := SText (ascii ''2024-11-03 01:30:00'')\<rparr>],
      sqlite_sequence = 3\<rparr>"
    unfolding run_forward_def list.sel snd_conv posted_early patched_late ..
  show ?thesis
    using stored_rows_invariants [OF h] c h
    by (simp add: e created_row_def initial_data_def) (simp add: ascii_def)
qed

text \<open>
  The claim as stated fails when the local clock is set back between two requests: a
  recipe created at 01:30:00 and updated at a reading of 01:00:00 has an \<open>updated_at\<close>
  before its \<open>created_at\<close>.
\<close>

theorem updated_before_created:
  "history reads_5 run_set_back \<and>
   row_created_at (rows (snd (hd run_set_back)) ! 2) = SText (ascii ''2024-11-03 01:30:00'') \<and>
   row_updated_at (rows (snd (hd run_set_back)) ! 2) = SText (ascii ''2024-11-03 01:00:00'') \<and>
   \<not> sql_le (row_created_at (rows (snd (hd run_set_back)) ! 2))
            (row_updated_at (rows (snd (hd run_set_back)) ! 2))"
proof -
  have h: "history reads_5 run_set_back"
    unfolding run_set_back_def by (intro history.handled history_seeded)
  have e: "snd (hd run_set_back) = \<lparr>rows = initial_data @
        [(created_row 3 (ascii ''T'') (ascii ''10 min'') (ascii ''2'') (ascii ''a,b'') 5
            (ascii ''2024-11-03 01:30:00''))
           \<lparr>row_updated_at := SText (ascii ''2024-11-03 01:00:00'')\<rparr>],
      sqlite_sequence = 3\<rparr>"
    unfolding run_set_back_def list.sel snd_conv posted_late patched_early ..
  show ?thesis
    using h by (simp add: e created_row_def initial_data_def) (simp add: ascii_def)
qed

lemma carries_validate:
  "carries d recipe \<Longrightarrow> validate_RecipeCreate lib (JDict d) = Some recipe"
  by (simp add: carries_def validate_RecipeCreate_def str_field_def int_field_def)

lemma carries_body_of: "carries [(''title'', JStr (title recipe)),
    (''making_time'', JStr (making_time recipe)), (''serves'', JStr (serves recipe)),
    (''ingredients'', JStr (ingredients recipe)), (''cost'', JInt (cost recipe))] recipe"
  by (simp add: carries_def)

lemma filter_id_none:
  "\<forall>r \<in> set xs. row_id r \<noteq> n \<Longrightarrow> filter (\<lambda>r. row_id r = n) xs = []"
  by (induction xs) auto

lemma filter_id_single:
  "distinct (map row_id xs) \<Longrightarrow> r \<in> set xs \<Longrightarrow> filter (\<lambda>x. row_id x = row_id r) xs = [r]"
proof (induction xs)
  case Nil
  then show ?case by simp
next
  case (Cons a xs)
  show ?case
  proof (cases "a = r")
    case True
    then have "row_id r \<notin> set (map row_id xs)" using Cons.prems(1) by simp
    then have "\<forall>x \<in> set xs. row_id x \<noteq> row_id r" by (metis image_eqI set_map)
    then show ?thesis using True by (simp add: filter_id_none)
  next
    case False
    then have "r \<in> set xs" using Cons.prems(2) by simp
    moreover have "row_id a \<noteq> row_id r" using Cons.prems(1) \<open>r \<in> set xs\<close> by auto
    ultimately show ?thesis using Cons by simp
  qed
qed

lemma db_inv_distinct: "db_inv s \<Longrightarrow> distinct (map row_id (rows s))"
  by (simp add: db_inv_def strict_sorted_iff)

lemma db_inv_bind: "db_inv s \<Longrightarrow> r \<in> set (rows s) \<Longrightarrow> bind_int (row_id r) = Inr (SInt (row_id r))"
  by (auto simp: db_inv_def row_ok_def bind_int_def INT64_MIN_def)

lemma json_of_created_row:
  "json_of_row (created_row n t m sv i c now) =
     JDict [(''id'', JInt n), (''title'', JStr t), (''making_time'', JStr m),
            (''serves'', JStr sv), (''ingredients'', JStr i), (''cost'', JInt c),
            (''created_at'', JStr now), (''updated_at'', JStr now)]"
  by (simp add: json_of_row_def dict_factory_def description_def row_tuple_def created_row_def)


lemma create_recipe_ok:
  assumes inv: "db_inv s" and st: "storable recipe"
    and room: "sqlite_sequence s < INT64_MAX"
  shows "create_recipe clock recipe s =
     (Inr (JDict [(''message'', JStr (ascii ''Recipe successfully created!'')),
                  (''recipe'', JList [json_of_row (created_row (sqlite_sequence s + 1)
                     (title recipe) (making_time recipe) (serves recipe) (ingredients recipe)
                     (cost recipe) (get_current_time clock))])]),
      \<lparr>rows = rows s @ [created_row (sqlite_sequence s + 1) (title recipe) (making_time recipe)
                          (serves recipe) (ingredients recipe) (cost recipe)
                          (get_current_time clock)],
       sqlite_sequence = sqlite_sequence s + 1\<rparr>)"
proof -
  have l: "max (sqlite_sequence s) (max_rowid s) = sqlite_sequence s"
    using inv by (rule largest_eq)
  have n: "bind_int (sqlite_sequence s + 1) = Inr (SInt (sqlite_sequence s + 1))"
    using inv room by (simp add: bind_int_def db_inv_def INT64_MIN_def)
  have none: "filter (\<lambda>r. row_id r = sqlite_sequence s + 1) (rows s) = []"
    using inv by (intro filter_id_none) (auto simp: db_inv_def)
  have ins: "insert_auto (SText (title recipe)) (SText (making_time recipe))
      (SText (serves recipe)) (SText (ingredients recipe)) (SInt (cost recipe))
      (SText (get_current_time clock)) (SText (get_current_time clock)) s =
    Inr (sqlite_sequence s + 1,
      \<lparr>rows = rows s @ [created_row (sqlite_sequence s + 1) (title recipe) (making_time recipe)
                          (serves recipe) (ingredients recipe) (cost recipe)
                          (get_current_time clock)],
       sqlite_sequence = sqlite_sequence s + 1\<rparr>)"
    using room by (simp add: insert_auto_def l not_null_def created_row_def Let_def)
  have sel: "select_where_id (SInt (sqlite_sequence s + 1))
      \<lparr>rows = rows s @ [created_row (sqlite_sequence s + 1) (title recipe) (making_time recipe)
                          (serves recipe) (ingredients recipe) (cost recipe)
                          (get_current_time clock)],
       sqlite_sequence = sqlite_sequence s + 1\<rparr> =
     [created_row (sqlite_sequence s + 1) (title recipe) (making_time recipe)
        (serves recipe) (ingredients recipe) (cost recipe) (get_current_time clock)]"
    by (simp add: select_where_id_def none) (simp add: created_row_def)
  show ?thesis
    by (simp add: create_recipe_def bind_recipe_ok [OF st] bind_now ins n sel fetchone_def
        json_of_fetched_def Let_def)
qed

lemma select_present:
  assumes "db_inv s" "r \<in> set (rows s)"
  shows "select_where_id (SInt (row_id r)) s = [r]"
  using filter_id_single [OF db_inv_distinct [OF assms(1)] assms(2)]
  by (simp add: select_where_id_def)

lemma select_absent:
  assumes "recipe_id \<notin> row_id ` set (rows s)"
  shows "select_where_id (SInt recipe_id) s = []"
  using assms by (auto simp: select_where_id_def intro!: filter_id_none)

lemma update_recipe_ok:
  assumes inv: "db_inv s" and r: "r \<in> set (rows s)" and st: "storable upd"
  shows "update_recipe clock (row_id r) upd s =
     (Inr (JDict [(''message'', JStr (ascii ''Recipe successfully updated!'')),
                  (''recipe'', JList [json_of_row (updated_row (title upd) (making_time upd)
                     (serves upd) (ingredients upd) (cost upd) (get_current_time clock) r)])]),
      s\<lparr>rows := map (\<lambda>x. if row_id x = row_id r
                          then updated_row (title upd) (making_time upd) (serves upd)
                            (ingredients upd) (cost upd) (get_current_time clock) x
                          else x) (rows s)\<rparr>)"
proof -
  let ?g = "\<lambda>x. if row_id x = row_id r
             then updated_row (title upd) (making_time upd) (serves upd)
               (ingredients upd) (cost upd) (get_current_time clock) x
             else x"
  have sel: "select_where_id (SInt (row_id r)) s = [r]"
    using inv r by (rule select_present)
  have upd: "update_where_id (SText (title upd)) (SText (making_time upd)) (SText (serves upd))
      (SText (ingredients upd)) (SInt (cost upd)) (SText (get_current_time clock))
      (SInt (row_id r)) s = Inr (s\<lparr>rows := map ?g (rows s)\<rparr>)"
    by (simp add: update_where_id_def not_null_def updated_row_def)
  have pres: "(\<lambda>x. row_id x = row_id r) \<circ> ?g = (\<lambda>x. row_id x = row_id r)"
    by (auto simp: fun_eq_iff updated_row_def)
  have "filter (\<lambda>x. row_id x = row_id r) (map ?g (rows s)) =
        map ?g (filter (\<lambda>x. row_id x = row_id r) (rows s))"
    by (simp only: filter_map pres)
  also have "\<dots> = [?g r]"
    using sel by (simp add: select_where_id_def)
  finally have sel': "select_where_id (SInt (row_id r)) (s\<lparr>rows := map ?g (rows s)\<rparr>) =
      [updated_row (title upd) (making_time upd) (serves upd) (ingredients upd) (cost upd)
         (get_current_time clock) r]"
    by (simp add: select_where_id_def)
  show ?thesis
    by (simp add: update_recipe_def db_inv_bind [OF inv r] sel bind_recipe_ok [OF st] bind_now
        upd sel' fetchone_def json_of_fetched_def Let_def)
qed

lemma update_recipe_unstorable:
  assumes inv: "db_inv s" and r: "r \<in> set (rows s)" and c: "\<not> storable upd"
  shows "update_recipe clock (row_id r) upd s = (Inl OverflowError, s) \<or>
         update_recipe clock (row_id r) upd s = (Inl UnicodeEncodeError, s)"
  using bind_recipe_fails [OF c]
  by (auto simp: update_recipe_def db_inv_bind [OF inv r] select_present [OF inv r] fetchone_def
      Let_def)

text \<open>
  Claim C7. In every run from startup, no row of any state of the run so far, the rows
  since deleted included, has an id as large as the next one. A POST /recipes whose body
  passes validation with a recipe the table can take, while ids are not exhausted,
  stores exactly one new row, with that next id, and returns it; and a POST /recipes
  that answers 200 has done so.
\<close>

theorem created_id_above_all_issued:
  assumes "history lib ((t, s) # tr)"
  shows "(\<forall>x \<in> set ((t, s) # tr). \<forall>r \<in> set (rows (snd x)). row_id r < sqlite_sequence s + 1) \<and>
         (validate_RecipeCreate lib body = Some recipe \<and> storable recipe \<and>
          sqlite_sequence s < INT64_MAX \<longrightarrow>
            handle lib clock (POST_recipes body) s =
              (\<lparr>status_code = 200,
                content = JDict
                  [(''message'', JStr (ascii ''Recipe successfully created!'')),
                   (''recipe'', JList
                     [json_of_row (created_row (sqlite_sequence s + 1) (title recipe)
                        (making_time recipe) (serves recipe) (ingredients recipe) (cost recipe)
                        (get_current_time clock))])]\<rparr>,
               \<lparr>rows = rows s @
                  [created_row (sqlite_sequence s + 1) (title recipe) (making_time recipe)
                     (serves recipe) (ingredients recipe) (cost recipe)
                     (get_current_time clock)],
                sqlite_sequence = sqlite_sequence s + 1\<rparr>)) \<and>
         (status_code (fst (handle lib clock (POST_recipes body) s)) = 200 \<longrightarrow>
            (\<exists>r. row_id r = sqlite_sequence s + 1 \<and>
                 rows (snd (handle lib clock (POST_recipes body) s)) = rows s @ [r] \<and>
                 content (fst (handle lib clock (POST_recipes body) s)) =
                   JDict [(''message'', JStr (ascii ''Recipe successfully created!'')),
                          (''recipe'', JList [json_of_row r])]))"
proof (intro conjI impI)
  have inv: "db_inv s" using history_db_inv [OF assms] by simp
  have "\<forall>x \<in> set ((t, s) # tr). \<forall>r \<in> set (rows (snd x)). row_id r \<le> sqlite_sequence s"
    using history_ids_le_seq [OF assms] by simp
  then show "\<forall>x \<in> set ((t, s) # tr). \<forall>r \<in> set (rows (snd x)). row_id r < sqlite_sequence s + 1"
    by fastforce
  {
    assume a: "validate_RecipeCreate lib body = Some recipe \<and> storable recipe \<and>
      sqlite_sequence s < INT64_MAX"
    then show "handle lib clock (POST_recipes body) s =
              (\<lparr>status_code = 200,
                content = JDict
                  [(''message'', JStr (ascii ''Recipe successfully created!'')),
                   (''recipe'', JList
                     [json_of_row (created_row (sqlite_sequence s + 1) (title recipe)
                        (making_time recipe) (serves recipe) (ingredients recipe) (cost recipe)
                        (get_current_time clock))])]\<rparr>,
               \<lparr>rows = rows s @
                  [created_row (sqlite_sequence s + 1) (title recipe) (making_time recipe)
                     (serves recipe) (ingredients recipe) (cost recipe)
                     (get_current_time clock)],
                sqlite_sequence = sqlite_sequence s + 1\<rparr>)"
      by (simp add: served_def create_recipe_ok [OF inv])
  }
  {
    assume ok: "status_code (fst (handle lib clock (POST_recipes body) s)) = 200"
    show "\<exists>r. row_id r = sqlite_sequence s + 1 \<and>
                 rows (snd (handle lib clock (POST_recipes body) s)) = rows s @ [r] \<and>
                 content (fst (handle lib clock (POST_recipes body) s)) =
                   JDict [(''message'', JStr (ascii ''Recipe successfully created!'')),
                          (''recipe'', JList [json_of_row r])]"
    proof (cases "validate_RecipeCreate lib body")
      case None
      then show ?thesis using ok by (simp add: validation_exception_handler_def)
    next
      case (Some rc)
      show ?thesis
      proof (cases "storable rc \<and> max (sqlite_sequence s) (max_rowid s) < INT64_MAX")
        case True
        then have room: "sqlite_sequence s < INT64_MAX" using largest_eq [OF inv] by simp
        from True have st: "storable rc" by simp
        show ?thesis
          by (simp add: Some served_def create_recipe_ok [OF inv st room])
            (simp add: created_row_def)
      next
        case False
        from create_recipe_fails [OF this, of clock] ok Some show ?thesis
          by (auto simp: served_def)
      qed
    qed
  }
qed

theorem created_id_above_all_issued_witness:
  "history reads_5 run_deleted \<and>
   map row_id (rows (snd (hd run_deleted))) = [1] \<and>
   row_id (rows seeded ! 1) = 2 \<and>
   fst (handle reads_5 clock_late (POST_recipes (body_of sample_recipe)) (snd (hd run_deleted))) =
     \<lparr>status_code = 200,
      content = JDict
        [(''message'', JStr (ascii ''Recipe successfully created!'')),
         (''recipe'', JList
           [json_of_row (created_row 3 (ascii ''T'') (ascii ''10 min'') (ascii ''2'')
              (ascii ''a,b'') 5 (ascii ''2024-11-03 01:30:00''))])]\<rparr> \<and>
   map row_id (rows (snd (handle reads_5 clock_late (POST_recipes (body_of sample_recipe))
     (snd (hd run_deleted))))) = [1, 3]"
proof -
  have h: "history reads_5 run_deleted"
    unfolding run_deleted_def by (intro history.handled history_seeded)
  have e: "snd (hd run_deleted) = \<lparr>rows = [hd initial_data], sqlite_sequence = 2\<rparr>"
    unfolding run_deleted_def list.sel snd_conv deleted_two ..
  have h': "history reads_5 ((get_current_time clock_late,
      \<lparr>rows = [hd initial_data], sqlite_sequence = 2\<rparr>) # [(get_current_time clock_early, seeded)])"
    using h unfolding run_deleted_def deleted_two .
  have v: "validate_RecipeCreate reads_5 (body_of sample_recipe) = Some sample_recipe"
    unfolding body_of_def by (rule carries_validate [OF carries_body_of])
  have st: "storable sample_recipe"
    by (simp add: storable_def sample_recipe_def encodable_def ascii_def INT64_MIN_def
        INT64_MAX_def)
  have room: "sqlite_sequence \<lparr>rows = [hd initial_data], sqlite_sequence = 2\<rparr> < INT64_MAX"
    by (simp add: INT64_MAX_def)
  show ?thesis
    using created_id_above_all_issued [OF h', of "body_of sample_recipe" sample_recipe clock_late]
      h v st room
    by (simp add: e clock_strings) (simp add: sample_recipe_def seeded_def initial_data_def
        created_row_def)
qed

lemma decimal_four:
  assumes "1000 \<le> y" "y \<le> 9999"
  shows "decimal y = [48 + y div 1000, 48 + y div 100 mod 10, 48 + y div 10 mod 10, 48 + y mod 10]"
proof -
  have a: "\<not> y < 10" "\<not> y div 10 < 10" "\<not> y div 100 < 10" "y div 1000 < 10"
    using assms by simp_all
  have b: "y div 10 div 10 = y div 100" "y div 100 div 10 = y div 1000"
    by (simp_all add: div_mult2_eq [symmetric])
  have "decimal y = decimal (y div 10) @ [48 + y mod 10]"
    using a(1) by (simp add: decimal.simps [of y])
  also have "decimal (y div 10) = decimal (y div 100) @ [48 + y div 10 mod 10]"
    using a(2) b(1) by (simp add: decimal.simps [of "y div 10"])
  also have "decimal (y div 100) = decimal (y div 1000) @ [48 + y div 100 mod 10]"
    using a(3) b(2) by (simp add: decimal.simps [of "y div 100"])
  also have "decimal (y div 1000) = [48 + y div 1000]"
    using a(4) by (simp add: decimal.simps [of "y div 1000"])
  finally show ?thesis by simp
qed

lemma is_digit_48: "n < 10 \<Longrightarrow> is_digit (48 + n)"
  by (simp add: is_digit_def)

lemma timestamp_format_now:
  assumes "valid_datetime clock" and "1000 \<le> year clock"
  shows "timestamp_format (get_current_time clock)"
proof -
  have y: "decimal (year clock) =
      [48 + year clock div 1000, 48 + year clock div 100 mod 10, 48 + year clock div 10 mod 10,
       48 + year clock mod 10]"
    using assms by (intro decimal_four) (simp_all add: valid_datetime_def)
  have y1: "year clock div 1000 < 10"
    using assms(1) by (intro less_mult_imp_div_less) (simp add: valid_datetime_def)
  have d: "is_digit (48 + n div 10 mod 10)" "is_digit (48 + n mod 10)" for n :: nat
    by (simp_all add: is_digit_def)
  show ?thesis
    using is_digit_48 [OF y1] d
    by (simp add: get_current_time_def y pad2_def ascii_def del: mod_less_divisor)
qed

text \<open>
  Claim C2, as amended. For every body that carries the five fields as strings and an
  integer, the strings with a UTF-8 encoding and the cost in 64 bits, in a state of a run
  whose ids are not exhausted, POST /recipes answers 200 with the message and the stored
  recipe, the recipe in a one-element list; the id is one more than the largest id ever
  issued, and no row of any earlier state of the run has it; both timestamps are the
  reading of the clock, which has the pattern YYYY-MM-DD HH:MM:SS when the year has four
  digits; the five fields are echoed back; the row is appended to the table.
\<close>

theorem create_round_trip:
  assumes "history lib ((t, s) # tr)" and "carries d recipe" and "storable recipe"
    and "sqlite_sequence s < INT64_MAX"
  shows "handle lib clock (POST_recipes (JDict d)) s =
           (\<lparr>status_code = 200,
             content = JDict
               [(''message'', JStr (ascii ''Recipe successfully created!'')),
                (''recipe'', JList
                  [JDict [(''id'', JInt (sqlite_sequence s + 1)),
                          (''title'', JStr (title recipe)),
                          (''making_time'', JStr (making_time recipe)),
                          (''serves'', JStr (serves recipe)),
                          (''ingredients'', JStr (ingredients recipe)),
                          (''cost'', JInt (cost recipe)),
                          (''created_at'', JStr (get_current_time clock)),
                          (''updated_at'', JStr (get_current_time clock))]])]\<rparr>,
            \<lparr>rows = rows s @
               [created_row (sqlite_sequence s + 1) (title recipe) (making_time recipe)
                  (serves recipe) (ingredients recipe) (cost recipe) (get_current_time clock)],
             sqlite_sequence = sqlite_sequence s + 1\<rparr>) \<and>
         (\<forall>x \<in> set ((t, s) # tr). \<forall>r \<in> set (rows (snd x)). row_id r \<noteq> sqlite_sequence s + 1) \<and>
         (valid_datetime clock \<and> 1000 \<le> year clock \<longrightarrow>
            timestamp_format (get_current_time clock))"
proof (intro conjI impI)
  have inv: "db_inv s" using history_db_inv [OF assms(1)] by simp
  show "handle lib clock (POST_recipes (JDict d)) s =
           (\<lparr>status_code = 200,
             content = JDict
               [(''message'', JStr (ascii ''Recipe successfully created!'')),
                (''recipe'', JList
                  [JDict [(''id'', JInt (sqlite_sequence s + 1)),
                          (''title'', JStr (title recipe)),
                          (''making_time'', JStr (making_time recipe)),
                          (''serves'', JStr (serves recipe)),
                          (''ingredients'', JStr (ingredients recipe)),
                          (''cost'', JInt (cost recipe)),
                          (''created_at'', JStr (get_current_time clock)),
                          (''updated_at'', JStr (get_current_time clock))]])]\<rparr>,
            \<lparr>rows = rows s @
               [created_row (sqlite_sequence s + 1) (title recipe) (making_time recipe)
                  (serves recipe) (ingredients recipe) (cost recipe) (get_current_time clock)],
             sqlite_sequence = sqlite_sequence s + 1\<rparr>)"
    by (simp add: carries_validate [OF assms(2)] served_def
        create_recipe_ok [OF inv assms(3) assms(4)] json_of_created_row)
  have "\<forall>x \<in> set ((t, s) # tr). \<forall>r \<in> set (rows (snd x)). row_id r \<le> sqlite_sequence s"
    using history_ids_le_seq [OF assms(1)] by simp
  then show "\<forall>x \<in> set ((t, s) # tr). \<forall>r \<in> set (rows (snd x)). row_id r \<noteq> sqlite_sequence s + 1"
    by fastforce
next
  assume "valid_datetime clock \<and> 1000 \<le> year clock"
  then show "timestamp_format (get_current_time clock)"
    by (simp add: timestamp_format_now)
qed

theorem create_round_trip_witness:
  "history reads_5 run_deleted \<and>
   handle reads_5 clock_late (POST_recipes (body_of sample_recipe)) (snd (hd run_deleted)) =
     (\<lparr>status_code = 200,
       content = JDict
         [(''message'', JStr (ascii ''Recipe successfully created!'')),
          (''recipe'', JList
            [JDict [(''id'', JInt 3), (''title'', JStr (ascii ''T'')),
                    (''making_time'', JStr (ascii ''10 min'')),
                    (''serves'', JStr (ascii ''2'')), (''ingredients'', JStr (ascii ''a,b'')),
                    (''cost'', JInt 5),
                    (''created_at'', JStr (ascii ''2024-11-03 01:30:00'')),
                    (''updated_at'', JStr (ascii ''2024-11-03 01:30:00''))]])]\<rparr>,
      \<lparr>rows = [hd initial_data,
                created_row 3 (ascii ''T'') (ascii ''10 min'') (ascii ''2'') (ascii ''a,b'') 5
                  (ascii ''2024-11-03 01:30:00'')],
       sqlite_sequence = 3\<rparr>) \<and>
   row_id (rows seeded ! 1) = 2 \<and>
   timestamp_format (ascii ''2024-11-03 01:30:00'')"
proof -
  have h: "history reads_5 run_deleted"
    unfolding run_deleted_def by (intro history.handled history_seeded)
  have e: "snd (hd run_deleted) = \<lparr>rows = [hd initial_data], sqlite_sequence = 2\<rparr>"
    unfolding run_deleted_def list.sel snd_conv deleted_two ..
  have h': "history reads_5 ((get_current_time clock_late,
      \<lparr>rows = [hd initial_data], sqlite_sequence = 2\<rparr>) # [(get_current_time clock_early, seeded)])"
    using h unfolding run_deleted_def deleted_two .
  have c: "carries [(''title'', JStr (title sample_recipe)),
    (''making_time'', JStr (making_time sample_recipe)), (''serves'', JStr (serves sample_recipe)),
    (''ingredients'', JStr (ingredients sample_recipe)), (''cost'', JInt (cost sample_recipe))]
    sample_recipe"
    by (rule carries_body_of)
  have st: "storable sample_recipe"
    by (simp add: storable_def sample_recipe_def encodable_def ascii_def INT64_MIN_def
        INT64_MAX_def)
  have room: "sqlite_sequence \<lparr>rows = [hd initial_data], sqlite_sequence = 2\<rparr> < INT64_MAX"
    by (simp add: INT64_MAX_def)
  have v: "valid_datetime clock_late \<and> 1000 \<le> year clock_late"
    by (simp add: valid_datetime_def clock_late_def)
  show ?thesis
    using create_round_trip [OF h' c st room, of clock_late] h v
    by (simp add: e body_of_def clock_strings) (simp add: sample_recipe_def seeded_def
        initial_data_def)
qed

text \<open>
  The claim as stated fails in four ways. A cost that does not fit in 64 bits and a title
  with an unpaired surrogate both pass validation and raise when they are bound: the
  answer is 500 and nothing is stored. So does any create once the table has held the
  largest possible id. And at a reading of the clock in the year 999 the recipe is
  created with a timestamp of eighteen characters.
\<close>

theorem create_fails_or_short_year:
  "validate_RecipeCreate reads_5 (body_of costly_recipe) = Some costly_recipe \<and>
   handle reads_5 clock_late (POST_recipes (body_of costly_recipe)) seeded =
     (\<lparr>status_code = 500, content = JStr (ascii ''Internal Server Error'')\<rparr>, seeded) \<and>
   validate_RecipeCreate reads_5 (body_of surrogate_recipe) = Some surrogate_recipe \<and>
   handle reads_5 clock_late (POST_recipes (body_of surrogate_recipe)) seeded =
     (\<lparr>status_code = 500, content = JStr (ascii ''Internal Server Error'')\<rparr>, seeded) \<and>
   handle reads_5 clock_late (POST_recipes (body_of sample_recipe)) exhausted =
     (\<lparr>status_code = 500, content = JStr (ascii ''Internal Server Error'')\<rparr>, exhausted) \<and>
   status_code (fst (handle reads_5 clock_999 (POST_recipes (body_of sample_recipe)) seeded)) =
     200 \<and>
   row_created_at (rows (snd (handle reads_5 clock_999 (POST_recipes (body_of sample_recipe))
     seeded)) ! 2) = SText (ascii ''999-01-02 03:04:05'') \<and>
   \<not> timestamp_format (ascii ''999-01-02 03:04:05'')"
  by (simp add: run_defs)



lemma filter_by_id:
  assumes inv: "db_inv s" and r: "r \<in> set (rows s)"
  shows "filter (\<lambda>x. row_id x \<noteq> row_id r) (rows s) = filter (\<lambda>x. x \<noteq> r) (rows s)"
  using db_inv_same_id [OF inv _ r] by (intro filter_cong) auto




lemma update_recipe_absent:
  assumes "recipe_id \<notin> row_id ` set (rows s)"
  shows "update_recipe clock recipe_id upd s =
     (if INT64_MIN \<le> recipe_id \<and> recipe_id \<le> INT64_MAX
      then Inl (HTTPException 404 ''Recipe not found'') else Inl OverflowError, s)"
  using select_absent [OF assms]
  by (auto simp: update_recipe_def bind_int_def fetchone_def)

lemma delete_recipe_absent:
  assumes "recipe_id \<notin> row_id ` set (rows s)"
  shows "delete_recipe recipe_id s =
     (if INT64_MIN \<le> recipe_id \<and> recipe_id \<le> INT64_MAX
      then Inl (HTTPException 404 ''Recipe not found'') else Inl OverflowError, s)"
  using select_absent [OF assms]
  by (auto simp: delete_recipe_def bind_int_def fetchone_def)

lemma get_recipe_detail_absent:
  assumes "recipe_id \<notin> row_id ` set (rows s)"
  shows "get_recipe_detail recipe_id s =
     (if INT64_MIN \<le> recipe_id \<and> recipe_id \<le> INT64_MAX
      then Inl (HTTPException 404 ''Recipe not found'') else Inl OverflowError, s)"
  using select_absent [OF assms]
  by (auto simp: get_recipe_detail_def bind_int_def fetchone_def)

text \<open>
  Claim C4, as amended. For every id that no stored row has, a PATCH /recipes/{id} whose
  body passes validation and a DELETE /recipes/{id} leave the whole storage state as it
  was; when the id fits in 64 bits, each answers 404 with the detail
  \<open>Recipe not found\<close>.
\<close>

theorem absent_id_not_found:
  assumes "recipe_id \<notin> row_id ` set (rows s)"
    and "validate_RecipeCreate lib body = Some upd"
  shows "snd (handle lib clock (PATCH_recipe recipe_id body) s) = s \<and>
         snd (handle lib clock (DELETE_recipe recipe_id) s) = s \<and>
         (INT64_MIN \<le> recipe_id \<and> recipe_id \<le> INT64_MAX \<longrightarrow>
            fst (handle lib clock (PATCH_recipe recipe_id body) s) =
              \<lparr>status_code = 404,
               content = JDict [(''detail'', JStr (ascii ''Recipe not found''))]\<rparr> \<and>
            fst (handle lib clock (DELETE_recipe recipe_id) s) =
              \<lparr>status_code = 404,
               content = JDict [(''detail'', JStr (ascii ''Recipe not found''))]\<rparr>)"
  by (simp add: assms(2) served_def update_recipe_absent [OF assms(1)]
      delete_recipe_absent [OF assms(1)])

theorem absent_id_not_found_witness:
  "7 \<notin> row_id ` set (rows seeded) \<and>
   handle reads_5 clock_late (PATCH_recipe 7 (body_of sample_recipe)) seeded =
     (\<lparr>status_code = 404, content = JDict [(''detail'', JStr (ascii ''Recipe not found''))]\<rparr>,
      seeded) \<and>
   handle reads_5 clock_late (DELETE_recipe 7) seeded =
     (\<lparr>status_code = 404, content = JDict [(''detail'', JStr (ascii ''Recipe not found''))]\<rparr>,
      seeded)"
proof -
  have a: "7 \<notin> row_id ` set (rows seeded)"
    by (simp add: seeded_def initial_data_def)
  have v: "validate_RecipeCreate reads_5 (body_of sample_recipe) = Some sample_recipe"
    unfolding body_of_def by (rule carries_validate [OF carries_body_of])
  have b: "INT64_MIN \<le> (7::int) \<and> (7::int) \<le> INT64_MAX"
    by (simp add: INT64_MIN_def INT64_MAX_def)
  show ?thesis
    using absent_id_not_found [OF a v, of clock_late] a b
    by (simp add: prod_eq_iff)
qed

text \<open>
  The claim as stated fails for an id that does not fit in 64 bits: no row has it, but
  binding it to the existence check raises \<open>OverflowError\<close> and the answer is 500, not
  404. Storage is unchanged there too.
\<close>

theorem absent_id_too_large:
  "9223372036854775808 \<notin> row_id ` set (rows seeded) \<and>
   handle reads_5 clock_late (PATCH_recipe 9223372036854775808 (body_of sample_recipe)) seeded =
     (\<lparr>status_code = 500, content = JStr (ascii ''Internal Server Error'')\<rparr>, seeded) \<and>
   handle reads_5 clock_late (DELETE_recipe 9223372036854775808) seeded =
     (\<lparr>status_code = 500, content = JStr (ascii ''Internal Server Error'')\<rparr>, seeded)"
  by (simp add: run_defs)

text \<open>
  Claim C5. For every row of a reachable state, DELETE /recipes/{id} answers 200 with the
  envelope that holds the message only, and removes that row and no other; a GET and a
  second DELETE on the same id then answer 404 and change nothing.
\<close>

theorem delete_then_not_found:
  assumes "reachable lib s" and "r \<in> set (rows s)"
  shows "handle lib clock (DELETE_recipe (row_id r)) s =
           (\<lparr>status_code = 200,
             content = JDict [(''message'', JStr (ascii ''Recipe successfully removed!''))]\<rparr>,
            s\<lparr>rows := filter (\<lambda>x. x \<noteq> r) (rows s)\<rparr>) \<and>
         handle lib clock' (GET_recipe (row_id r)) (s\<lparr>rows := filter (\<lambda>x. x \<noteq> r) (rows s)\<rparr>) =
           (\<lparr>status_code = 404,
             content = JDict [(''detail'', JStr (ascii ''Recipe not found''))]\<rparr>,
            s\<lparr>rows := filter (\<lambda>x. x \<noteq> r) (rows s)\<rparr>) \<and>
         handle lib clock'' (DELETE_recipe (row_id r))
             (s\<lparr>rows := filter (\<lambda>x. x \<noteq> r) (rows s)\<rparr>) =
           (\<lparr>status_code = 404,
             content = JDict [(''detail'', JStr (ascii ''Recipe not found''))]\<rparr>,
            s\<lparr>rows := filter (\<lambda>x. x \<noteq> r) (rows s)\<rparr>)"
proof -
  let ?s' = "s\<lparr>rows := filter (\<lambda>x. x \<noteq> r) (rows s)\<rparr>"
  have inv: "db_inv s" using assms(1) by (rule reachable_db_inv)
  have b: "bind_int (row_id r) = Inr (SInt (row_id r))"
    using inv assms(2) by (rule db_inv_bind)
  then have range: "INT64_MIN \<le> row_id r \<and> row_id r \<le> INT64_MAX"
    by (simp add: bind_int_def split: if_splits)
  have del: "delete_recipe (row_id r) s =
      (Inr (JDict [(''message'', JStr (ascii ''Recipe successfully removed!''))]), ?s')"
    by (simp add: delete_recipe_def b select_present [OF inv assms(2)] fetchone_def
        delete_where_id_def filter_by_id [OF inv assms(2)])
  have gone: "row_id r \<notin> row_id ` set (rows ?s')"
    using db_inv_same_id [OF inv _ assms(2)] by auto
  show ?thesis
    using range
    by (simp add: served_def del get_recipe_detail_absent [OF gone]
        delete_recipe_absent [OF gone])
qed

theorem delete_then_not_found_witness:
  "reachable reads_5 seeded \<and>
   handle reads_5 clock_early (DELETE_recipe 2) seeded =
     (\<lparr>status_code = 200,
       content = JDict [(''message'', JStr (ascii ''Recipe successfully removed!''))]\<rparr>,
      \<lparr>rows = [hd initial_data], sqlite_sequence = 2\<rparr>) \<and>
   handle reads_5 clock_late (GET_recipe 2) \<lparr>rows = [hd initial_data], sqlite_sequence = 2\<rparr> =
     (\<lparr>status_code = 404, content = JDict [(''detail'', JStr (ascii ''Recipe not found''))]\<rparr>,
      \<lparr>rows = [hd initial_data], sqlite_sequence = 2\<rparr>) \<and>
   handle reads_5 clock_late (DELETE_recipe 2) \<lparr>rows = [hd initial_data], sqlite_sequence = 2\<rparr> =
     (\<lparr>status_code = 404, content = JDict [(''detail'', JStr (ascii ''Recipe not found''))]\<rparr>,
      \<lparr>rows = [hd initial_data], sqlite_sequence = 2\<rparr>)"
proof -
  have r: "reachable reads_5 seeded" by (rule reachable.startup [OF init_db_seeded])
  have m: "initial_data ! 1 \<in> set (rows seeded)" by (simp add: seeded_def initial_data_def)
  have i: "row_id (initial_data ! 1) = 2" by (simp add: initial_data_def)
  have f: "seeded\<lparr>rows := filter (\<lambda>x. x \<noteq> initial_data ! 1) (rows seeded)\<rparr> =
      \<lparr>rows = [hd initial_data], sqlite_sequence = 2\<rparr>"
    by (simp add: seeded_def initial_data_def)
  show ?thesis
    using delete_then_not_found [OF r m, of clock_early clock_late clock_late] r
    unfolding i f by simp
qed










lemma fetchone_mem: "fetchone xs = Some x \<Longrightarrow> x \<in> set xs"
  by (cases xs) (simp_all add: fetchone_def)

lemma created_wrapped:
  assumes inv: "db_inv s"
    and ok: "status_code (fst (served (create_recipe clock recipe s))) = 200"
  shows "\<exists>msg r. r \<in> set (rows (snd (served (create_recipe clock recipe s)))) \<and>
           content (fst (served (create_recipe clock recipe s))) =
             JDict [(''message'', JStr msg), (''recipe'', JList [json_of_row r])]"
proof (cases "storable recipe \<and> max (sqlite_sequence s) (max_rowid s) < INT64_MAX")
  case True
  then have room: "sqlite_sequence s < INT64_MAX" using largest_eq [OF inv] by simp
  from True have st: "storable recipe" by simp
  show ?thesis
    unfolding create_recipe_ok [OF inv st room] served_def by auto
next
  case False
  from create_recipe_fails [OF this, of clock] ok show ?thesis
    by (auto simp: served_def)
qed

lemma fetched_wrapped:
  assumes ok: "status_code (fst (served (get_recipe_detail recipe_id s))) = 200"
  shows "\<exists>msg r. r \<in> set (rows (snd (served (get_recipe_detail recipe_id s)))) \<and>
           content (fst (served (get_recipe_detail recipe_id s))) =
             JDict [(''message'', JStr msg), (''recipe'', JList [json_of_row r])]"
proof (cases "bind_int recipe_id")
  case (Inl e)
  then have "e = OverflowError" by (simp add: bind_int_def split: if_splits)
  then show ?thesis using ok Inl by (simp add: served_def get_recipe_detail_def)
next
  case (Inr v)
  show ?thesis
  proof (cases "fetchone (select_where_id v s)")
    case None
    then show ?thesis using ok Inr by (simp add: served_def get_recipe_detail_def)
  next
    case (Some r)
    then have "r \<in> set (rows s)"
      by (auto dest: fetchone_mem simp: select_where_id_def)
    then show ?thesis using Inr Some by (auto simp add: served_def get_recipe_detail_def)
  qed
qed

lemma updated_wrapped:
  assumes inv: "db_inv s"
    and ok: "status_code (fst (served (update_recipe clock recipe_id upd s))) = 200"
  shows "\<exists>msg r. r \<in> set (rows (snd (served (update_recipe clock recipe_id upd s)))) \<and>
           content (fst (served (update_recipe clock recipe_id upd s))) =
             JDict [(''message'', JStr msg), (''recipe'', JList [json_of_row r])]"
proof (cases "recipe_id \<in> row_id ` set (rows s)")
  case False
  show ?thesis using ok unfolding update_recipe_absent [OF False] served_def
    by (simp split: if_splits)
next
  case True
  then obtain r where r: "r \<in> set (rows s)" and i: "recipe_id = row_id r" by auto
  show ?thesis
  proof (cases "storable upd")
    case True
    show ?thesis
      unfolding i update_recipe_ok [OF inv r True] served_def using r by auto
  next
    case False
    from update_recipe_unstorable [OF inv r False, of clock] ok show ?thesis
      unfolding i served_def by auto
  qed
qed

text \<open>
  Claim C9. GET /recipes always answers 200 with all rows as a list under \<open>recipes\<close>, the
  empty list when the table is empty. In a reachable state every create, get by id and
  update that answers 200 returns a stored row as the one element of a list under
  \<open>recipe\<close>, next to the message.
\<close>

theorem response_shapes:
  "handle lib clock GET_recipes s =
     (\<lparr>status_code = 200,
       content = JDict [(''recipes'', JList (map json_of_row (rows s)))]\<rparr>, s) \<and>
   (reachable lib s \<and> single_item req \<and> status_code (fst (handle lib clock req s)) = 200 \<longrightarrow>
      (\<exists>msg r. r \<in> set (rows (snd (handle lib clock req s))) \<and>
         content (fst (handle lib clock req s)) =
           JDict [(''message'', JStr msg), (''recipe'', JList [json_of_row r])]))"
proof (intro conjI impI)
  show "handle lib clock GET_recipes s =
     (\<lparr>status_code = 200,
       content = JDict [(''recipes'', JList (map json_of_row (rows s)))]\<rparr>, s)"
    by (simp add: served_def get_recipes_def)
next
  assume a: "reachable lib s \<and> single_item req \<and>
    status_code (fst (handle lib clock req s)) = 200"
  then have "reachable lib s" by simp
  then have inv: "db_inv s" by (rule reachable_db_inv)
  show "\<exists>msg r. r \<in> set (rows (snd (handle lib clock req s))) \<and>
         content (fst (handle lib clock req s)) =
           JDict [(''message'', JStr msg), (''recipe'', JList [json_of_row r])]"
  proof (cases req)
    case (POST_recipes body)
    show ?thesis
    proof (cases "validate_RecipeCreate lib body")
      case None
      then show ?thesis using a POST_recipes by (simp add: validation_exception_handler_def)
    next
      case (Some recipe)
      then show ?thesis using a POST_recipes created_wrapped [OF inv, of clock recipe] by simp
    qed
  next
    case (GET_recipe recipe_id)
    then show ?thesis using a fetched_wrapped [of recipe_id s] by simp
  next
    case (PATCH_recipe recipe_id body)
    show ?thesis
    proof (cases "validate_RecipeCreate lib body")
      case None
      then show ?thesis using a PATCH_recipe by (simp add: validation_exception_handler_def)
    next
      case (Some upd)
      then show ?thesis
        using a PATCH_recipe updated_wrapped [OF inv, of clock recipe_id upd] by simp
    qed
  qed (use a in simp_all)
qed

theorem response_shapes_witness:
  "handle reads_5 clock_late GET_recipes \<lparr>rows = [], sqlite_sequence = 2\<rparr> =
     (\<lparr>status_code = 200, content = JDict [(''recipes'', JList [])]\<rparr>,
      \<lparr>rows = [], sqlite_sequence = 2\<rparr>) \<and>
   reachable reads_5 seeded \<and> single_item (GET_recipe 1) \<and>
   fst (handle reads_5 clock_late (GET_recipe 1) seeded) =
     \<lparr>status_code = 200,
      content = JDict [(''message'', JStr (ascii ''Recipe details by id'')),
                       (''recipe'', JList [json_of_row (hd initial_data)])]\<rparr>"
proof -
  have r: "reachable reads_5 seeded" by (rule reachable.startup [OF init_db_seeded])
  have g: "fst (handle reads_5 clock_late (GET_recipe 1) seeded) =
     \<lparr>status_code = 200,
      content = JDict [(''message'', JStr (ascii ''Recipe details by id'')),
                       (''recipe'', JList [json_of_row (hd initial_data)])]\<rparr>"
    by (simp add: served_def get_recipe_detail_def bind_int_def INT64_MIN_def INT64_MAX_def
        select_where_id_def fetchone_def seeded_def initial_data_def)
  show ?thesis
    using response_shapes [of reads_5 clock_late "\<lparr>rows = [], sqlite_sequence = 2\<rparr>"
        "GET_recipe 1"] r g
    by simp
qed

lemma validate_same_fields:
  assumes "\<forall>k \<in> set [''title'', ''making_time'', ''serves'', ''ingredients'', ''cost''].
             map_of d' k = map_of d k"
  shows "validate_RecipeCreate lib (JDict d') = validate_RecipeCreate lib (JDict d)"
  using assms by (simp add: validate_RecipeCreate_def str_field_def int_field_def)

text \<open>
  Claim C10. Two bodies that agree on the five declared fields are handled alike, on
  create and on update: they leave the same storage and get the same status, and when
  they pass validation the same response; when they do not, each gets the envelope with
  the text of its own validation exception. Whatever else a body holds, an \<open>id\<close>, a
  \<open>created_at\<close> or an \<open>updated_at\<close> included, is never read.
\<close>

theorem extra_fields_ignored:
  assumes "\<forall>k \<in> set [''title'', ''making_time'', ''serves'', ''ingredients'', ''cost''].
             map_of d' k = map_of d k"
  shows "snd (handle lib clock (POST_recipes (JDict d')) s) =
           snd (handle lib clock (POST_recipes (JDict d)) s) \<and>
         snd (handle lib clock (PATCH_recipe recipe_id (JDict d')) s) =
           snd (handle lib clock (PATCH_recipe recipe_id (JDict d)) s) \<and>
         status_code (fst (handle lib clock (POST_recipes (JDict d')) s)) =
           status_code (fst (handle lib clock (POST_recipes (JDict d)) s)) \<and>
         status_code (fst (handle lib clock (PATCH_recipe recipe_id (JDict d')) s)) =
           status_code (fst (handle lib clock (PATCH_recipe recipe_id (JDict d)) s)) \<and>
         (case validate_RecipeCreate lib (JDict d) of
            Some recipe \<Rightarrow>
              handle lib clock (POST_recipes (JDict d')) s = served (create_recipe clock recipe s) \<and>
              handle lib clock (POST_recipes (JDict d)) s = served (create_recipe clock recipe s) \<and>
              handle lib clock (PATCH_recipe recipe_id (JDict d')) s =
                served (update_recipe clock recipe_id recipe s) \<and>
              handle lib clock (PATCH_recipe recipe_id (JDict d)) s =
                served (update_recipe clock recipe_id recipe s)
          | None \<Rightarrow>
              handle lib clock (POST_recipes (JDict d')) s =
                (validation_exception_handler (exc_text lib (POST_recipes (JDict d'))), s) \<and>
              handle lib clock (PATCH_recipe recipe_id (JDict d')) s =
                (validation_exception_handler
                   (exc_text lib (PATCH_recipe recipe_id (JDict d'))), s))"
  by (auto simp add: validate_same_fields [OF assms] validation_exception_handler_def
      split: option.splits)

theorem extra_fields_ignored_witness:
  "map_of extra_items ''id'' = Some (JInt 99) \<and>
   handle reads_5 clock_late (POST_recipes (JDict extra_items)) seeded =
     handle reads_5 clock_late (POST_recipes (body_of sample_recipe)) seeded \<and>
   handle reads_5 clock_late (PATCH_recipe 1 (JDict extra_items)) seeded =
     handle reads_5 clock_late (PATCH_recipe 1 (body_of sample_recipe)) seeded \<and>
   snd (handle reads_5 clock_late (POST_recipes (JDict extra_items)) seeded) =
     \<lparr>rows = initial_data @
        [created_row 3 (ascii ''T'') (ascii ''10 min'') (ascii ''2'') (ascii ''a,b'') 5
           (ascii ''2024-11-03 01:30:00'')],
      sqlite_sequence = 3\<rparr>"
proof -
  have a: "\<forall>k \<in> set [''title'', ''making_time'', ''serves'', ''ingredients'', ''cost''].
      map_of extra_items k =
      map_of [(''title'', JStr (title sample_recipe)),
        (''making_time'', JStr (making_time sample_recipe)),
        (''serves'', JStr (serves sample_recipe)),
        (''ingredients'', JStr (ingredients sample_recipe)),
        (''cost'', JInt (cost sample_recipe))] k"
    by (simp add: extra_items_def sample_recipe_def)
  have i: "map_of extra_items ''id'' = Some (JInt 99)"
    by (simp add: extra_items_def)
  have v: "validate_RecipeCreate reads_5 (body_of sample_recipe) = Some sample_recipe"
    unfolding body_of_def by (rule carries_validate [OF carries_body_of])
  note e = extra_fields_ignored [OF a, of reads_5 clock_late seeded, folded body_of_def]
  show ?thesis
    using e [of 1] i posted_late by (simp add: v)
qed

end
